theory Spec2Isabelle
  imports Main "HOL-Library.AList"
begin

section \<open>JavaScript strings\<close>

text \<open>
  A JavaScript string is a sequence of UTF-16 code units. A code unit is a natural
  number here; \<open>str\<close> turns an ASCII literal into its code units, so that
  \<open>str ''--''\<close> is the string \<^verbatim>\<open>'--'\<close> of the source.
\<close>

type_synonym jsstring = "nat list"

definition str :: "string \<Rightarrow> jsstring" where
  "str s = map of_char s"

text \<open>\<^verbatim>\<open>s.startsWith(p)\<close>.\<close>

definition startsWith :: "jsstring \<Rightarrow> jsstring \<Rightarrow> bool" where
  "startsWith s p = (take (length p) s = p)"

text \<open>\<^verbatim>\<open>s.substring(n)\<close> for \<open>n\<close> within the string or beyond it.\<close>

definition substring :: "jsstring \<Rightarrow> nat \<Rightarrow> jsstring" where
  "substring s n = drop n s"

text \<open>
  \<^verbatim>\<open>s.split(sep)\<close> for a separator of one code unit: the string is cut at every
  occurrence of the separator, and the empty string gives one empty part.
\<close>

fun split :: "nat \<Rightarrow> jsstring \<Rightarrow> jsstring list" where
  "split sep [] = [[]]"
| "split sep (c # cs) =
     (if c = sep then [] # split sep cs
      else (case split sep cs of
              [] \<Rightarrow> [[c]]
            | p # ps \<Rightarrow> (c # p) # ps))"

text \<open>\<^verbatim>\<open>s.split('')\<close>: one string for every code unit.\<close>

definition split_units :: "jsstring \<Rightarrow> jsstring list" where
  "split_units s = map (\<lambda>c. [c]) s"

text \<open>\<^verbatim>\<open>parts.join(sep)\<close> on an array of strings.\<close>

fun join :: "jsstring \<Rightarrow> jsstring list \<Rightarrow> jsstring" where
  "join sep [] = []"
| "join sep [p] = p"
| "join sep (p # q # ps) = p @ sep @ join sep (q # ps)"

text \<open>
  \<^verbatim>\<open>toLowerCase\<close> and \<^verbatim>\<open>toUpperCase\<close> follow the Unicode case mappings (they do
  not depend on the locale). On a string whose code units all lie in U+0000 to U+00FF
  (Basic Latin and Latin-1 Supplement) the mappings work unit by unit and are embedded
  in full: \<^verbatim>\<open>toLowerCase\<close> maps A-Z and U+00C0-U+00DE (but not the multiplication sign
  U+00D7) to the unit 32 above; \<^verbatim>\<open>toUpperCase\<close> maps a-z and U+00E0-U+00FE (but not the
  division sign U+00F7) to the unit 32 below, the sharp s U+00DF to the two units
  \<^verbatim>\<open>SS\<close>, the micro sign U+00B5 to U+039C and U+00FF to U+0178.

  On every other string (one that holds a code unit above U+00FF) the result depends
  on Unicode tables that are not part of the repository, on surrogate pairs and on the
  context rule of the final sigma. What the two functions return there is a parameter
  of the model: \<open>lowerCase_beyond uc s\<close> and \<open>upperCase_beyond uc s\<close>. A theorem stated
  for every \<open>uc\<close> holds whatever the tables say.
\<close>

record unicode =
  lowerCase_beyond :: "jsstring \<Rightarrow> jsstring"
  upperCase_beyond :: "jsstring \<Rightarrow> jsstring"

definition latin1 :: "jsstring \<Rightarrow> bool" where
  "latin1 s = list_all (\<lambda>c. c \<le> 0xFF) s"

definition lower_unit :: "nat \<Rightarrow> nat" where
  "lower_unit c =
     (if (0x41 \<le> c \<and> c \<le> 0x5A) \<or> (0xC0 \<le> c \<and> c \<le> 0xDE \<and> c \<noteq> 0xD7)
      then c + 0x20 else c)"

definition toLowerCase :: "unicode \<Rightarrow> jsstring \<Rightarrow> jsstring" where
  "toLowerCase uc s = (if latin1 s then map lower_unit s else lowerCase_beyond uc s)"

definition upper_units :: "nat \<Rightarrow> nat list" where
  "upper_units c =
     (if c = 0xDF then [0x53, 0x53]
      else if c = 0xB5 then [0x39C]
      else if c = 0xFF then [0x178]
      else if (0x61 \<le> c \<and> c \<le> 0x7A) \<or> (0xE0 \<le> c \<and> c \<le> 0xFE \<and> c \<noteq> 0xF7)
      then [c - 0x20] else [c])"

definition toUpperCase :: "unicode \<Rightarrow> jsstring \<Rightarrow> jsstring" where
  "toUpperCase uc s =
     (if latin1 s then concat (map upper_units s) else upperCase_beyond uc s)"

section \<open>The data model (domain/types.ts)\<close>

text \<open>
  An option value is \<^verbatim>\<open>string | boolean | string[]\<close>. The options object of a context
  is a map from keys to such values (the keys that a JavaScript object inherits from
  its prototype, such as \<^verbatim>\<open>__proto__\<close>, are not modelled).
\<close>

datatype optval = OStr jsstring | OBool bool | OArr "jsstring list"

datatype outputFormat = Text | Json

record CLIContext =
  arguments :: "jsstring list"
  options :: "jsstring \<rightharpoonup> optval"
  outputFormat :: outputFormat
  verbose :: bool

section \<open>The input parser (CLIInputValidator.parseArguments)\<close>

text \<open>
  The value of a long option: \<^verbatim>\<open>parts.length > 1 ? parts[1] : true\<close>, where
  \<^verbatim>\<open>parts = arg.substring(2).split('=')\<close>.
\<close>

definition long_parts :: "jsstring \<Rightarrow> jsstring list" where
  "long_parts arg = split (of_char CHR ''='') (substring arg 2)"

definition long_key :: "jsstring \<Rightarrow> jsstring" where
  "long_key arg = (case long_parts arg of [] \<Rightarrow> [] | k # _ \<Rightarrow> k)"

definition long_value :: "jsstring \<Rightarrow> optval" where
  "long_value arg =
     (let parts = long_parts arg in
      if length parts > 1 then OStr (parts ! 1) else OBool True)"

text \<open>The body of \<^verbatim>\<open>flags.forEach\<close> for one flag of a short-option cluster.\<close>

definition short_flag :: "CLIContext \<Rightarrow> jsstring \<Rightarrow> CLIContext" where
  "short_flag context flag =
     (let c1 = (if flag = str ''j'' then context\<lparr>outputFormat := Json\<rparr> else context);
          c2 = (if flag = str ''v'' then c1\<lparr>verbose := True\<rparr> else c1)
      in c2\<lparr>options := (options c2)(flag \<mapsto> OBool True)\<rparr>)"

text \<open>The body of the \<^verbatim>\<open>for\<close> loop for one token.\<close>

definition parse_token :: "CLIContext \<Rightarrow> jsstring \<Rightarrow> CLIContext" where
  "parse_token context arg =
     (if startsWith arg (str ''--'') then
        (let key = long_key arg; value = long_value arg in
         if key = str ''output'' \<or> key = str ''format'' then
           context\<lparr>outputFormat := (if value = OStr (str ''json'') then Json else Text)\<rparr>
         else if key = str ''verbose'' then
           context\<lparr>verbose := True\<rparr>
         else
           context\<lparr>options := (options context)(key \<mapsto> value)\<rparr>)
      else if startsWith arg (str ''-'') then
        foldl short_flag context (split_units (substring arg 1))
      else
        context\<lparr>arguments := arguments context @ [arg]\<rparr>)"

definition parseArguments :: "jsstring list \<Rightarrow> CLIContext" where
  "parseArguments args =
     foldl parse_token
       \<lparr>arguments = [], options = Map.empty, outputFormat = Text, verbose = False\<rparr>
       args"

section \<open>Results, errors and the environment\<close>

text \<open>
  The payload of a result (its optional field \<^verbatim>\<open>data\<close>, of type \<^verbatim>\<open>any\<close>) is a JSON
  value; an absent optional field is \<open>None\<close>. Times are milliseconds, as
  \<^verbatim>\<open>Date.now()\<close> gives them.
\<close>

datatype json =
    JNull | JBool bool | JNum int | JStr jsstring
  | JArr "json list" | JObj "(jsstring \<times> json) list"

record CommandResult =
  success :: bool
  data :: "json option"
  error :: "jsstring option"
  message :: "jsstring option"
  timestamp :: int
  executionTimeMs :: int

record validation =
  valid :: bool
  errors :: "jsstring list"

text \<open>A thrown value is an \<^verbatim>\<open>Error\<close>: its \<^verbatim>\<open>name\<close> and its \<^verbatim>\<open>message\<close>.\<close>

datatype js_error = JsError (error_name: jsstring) (error_message: jsstring)

text \<open>
  \<^verbatim>\<open>new CommandNotFoundError(commandName)\<close>: the message is the command name between
  single quotes (code unit 39) after the text \<^verbatim>\<open>Command not found: \<close>.
\<close>

definition CommandNotFoundError :: "jsstring \<Rightarrow> js_error" where
  "CommandNotFoundError commandName =
     JsError (str ''CommandNotFoundError'')
       (str ''Command not found: '' @ [39] @ commandName @ [39])"

text \<open>
  What the code does beyond computing values happens in an environment: the system
  clock, given by its successive readings (\<open>clock e n\<close> is what the \<open>n\<close>-th reading
  returns, and \<open>reads e\<close> counts the readings made so far), the console, the
  \<^verbatim>\<open>verbose\<close> flag of the logger, the store of result objects, and the state
  \<open>user e\<close> that commands, listeners and plugins act on (a counter in a test, the
  outside world in production).

  The store holds the result objects that are shared by reference: \<open>store e a\<close> is the
  object at address \<open>a\<close>, and \<open>next_ref e\<close> the next unused address. Code that holds the
  address of an object can read and write the object's fields through the
  environment. The dispatcher hands the result of a command to the listeners of
  \<^verbatim>\<open>command:executed\<close> by reference and returns that same object afterwards, so the
  object stands in the store from the moment \<^verbatim>\<open>execute\<close> has returned it.
\<close>

datatype level = INFO | WARN | ERROR | DEBUG

datatype log_data =
    NoData
  | ContextData CLIContext
  | ExecutionData bool int
  | ErrorData js_error

datatype console_line =
    LogLine level int jsstring log_data
  | ListenerFailure jsstring js_error

record 'u env =
  clock :: "nat \<Rightarrow> int"
  reads :: nat
  console :: "console_line list"
  logger_verbose :: bool
  store :: "nat \<Rightarrow> CommandResult"
  next_ref :: nat
  user :: 'u

text \<open>The object \<open>r\<close> enters the store at a fresh address, which is returned.\<close>

definition new_object :: "CommandResult \<Rightarrow> 'u env \<Rightarrow> nat \<times> 'u env" where
  "new_object r e =
     (next_ref e, e\<lparr>store := (store e)(next_ref e := r), next_ref := Suc (next_ref e)\<rparr>)"

text \<open>\<^verbatim>\<open>Date.now()\<close> and \<^verbatim>\<open>new Date()\<close>: one reading of the clock.\<close>

definition Date_now :: "'u env \<Rightarrow> int \<times> 'u env" where
  "Date_now e = (clock e (reads e), e\<lparr>reads := Suc (reads e)\<rparr>)"

section \<open>The logger (CLILogger)\<close>

text \<open>
  \<^verbatim>\<open>formatMessage\<close> stamps the line with \<^verbatim>\<open>new Date()\<close>; the line goes to the console.
  A console line keeps the parts of the formatted text (level, time, message, data)
  apart. The copy that \<^verbatim>\<open>writeToFile\<close> appends to the log file, whose failure that
  method catches itself, is left out.
\<close>

definition log_line :: "level \<Rightarrow> jsstring \<Rightarrow> log_data \<Rightarrow> 'u env \<Rightarrow> 'u env" where
  "log_line lv msg d e =
     (let (ts, e1) = Date_now e in e1\<lparr>console := console e1 @ [LogLine lv ts msg d]\<rparr>)"

definition CLILogger_info :: "jsstring \<Rightarrow> log_data \<Rightarrow> 'u env \<Rightarrow> 'u env" where
  "CLILogger_info msg d e = log_line INFO msg d e"

definition CLILogger_warn :: "jsstring \<Rightarrow> log_data \<Rightarrow> 'u env \<Rightarrow> 'u env" where
  "CLILogger_warn msg d e = log_line WARN msg d e"

definition CLILogger_error :: "jsstring \<Rightarrow> log_data \<Rightarrow> 'u env \<Rightarrow> 'u env" where
  "CLILogger_error msg d e = log_line ERROR msg d e"

definition CLILogger_debug :: "jsstring \<Rightarrow> log_data \<Rightarrow> 'u env \<Rightarrow> 'u env" where
  "CLILogger_debug msg d e = (if \<not> logger_verbose e then e else log_line DEBUG msg d e)"

section \<open>Commands and the registry (CommandRecordRegistry)\<close>

text \<open>
  A command's \<^verbatim>\<open>validate\<close> and \<^verbatim>\<open>execute\<close> are arbitrary code: each takes the context
  and the environment and either throws (\<open>Inl\<close>) or returns (\<open>Inr\<close>), leaving the
  environment as it made it. An \<^verbatim>\<open>async\<close> method that rejects is a throw at the
  \<^verbatim>\<open>await\<close>. Commands act on the environment only: they do not register commands or
  listeners while they run.
\<close>

record 'u Command =
  name :: jsstring
  description :: jsstring
  usage :: jsstring
  validate :: "CLIContext \<Rightarrow> 'u env \<Rightarrow> (js_error + validation) \<times> 'u env"
  execute :: "CLIContext \<Rightarrow> 'u env \<Rightarrow> (js_error + CommandResult) \<times> 'u env"

text \<open>
  The registry is a JavaScript \<^verbatim>\<open>Map\<close> from strings to commands: its entries in
  insertion order. \<^verbatim>\<open>set\<close> on a key the map has replaces the value where it stands
  and on a new key appends an entry, which is \<open>AList.update\<close>; \<^verbatim>\<open>delete\<close> is
  \<open>AList.delete\<close>. A command is an object, hence truthy: where the source writes
  \<^verbatim>\<open>get(key) || null\<close> the model returns \<open>None\<close> exactly for a key the map lacks.
  Every method folds the name with \<^verbatim>\<open>toLowerCase\<close>, and so takes the case tables \<open>uc\<close>.
\<close>

type_synonym 'u CommandRecordRegistry = "(jsstring \<times> 'u Command) list"

definition CommandRecordRegistry_register ::
  "unicode \<Rightarrow> 'u CommandRecordRegistry \<Rightarrow> 'u Command \<Rightarrow> 'u CommandRecordRegistry" where
  "CommandRecordRegistry_register uc commands command =
     AList.update (toLowerCase uc (name command)) command commands"

definition CommandRecordRegistry_unregister ::
  "unicode \<Rightarrow> 'u CommandRecordRegistry \<Rightarrow> jsstring \<Rightarrow> 'u CommandRecordRegistry" where
  "CommandRecordRegistry_unregister uc commands commandName =
     AList.delete (toLowerCase uc commandName) commands"

definition CommandRecordRegistry_get ::
  "unicode \<Rightarrow> 'u CommandRecordRegistry \<Rightarrow> jsstring \<Rightarrow> 'u Command option" where
  "CommandRecordRegistry_get uc commands commandName =
     map_of commands (toLowerCase uc commandName)"

definition CommandRecordRegistry_getAll :: "'u CommandRecordRegistry \<Rightarrow> 'u Command list" where
  "CommandRecordRegistry_getAll commands = map snd commands"

definition CommandRecordRegistry_exists :: "unicode \<Rightarrow> 'u CommandRecordRegistry \<Rightarrow> jsstring \<Rightarrow> bool" where
  "CommandRecordRegistry_exists uc commands commandName =
     (toLowerCase uc commandName \<in> set (map fst commands))"

text \<open>
  What every registry built by \<^verbatim>\<open>register\<close> and \<^verbatim>\<open>unregister\<close> from the empty one
  satisfies: the keys are distinct, and a command stands under its lower-cased name.
\<close>

definition registry_ok :: "unicode \<Rightarrow> 'u CommandRecordRegistry \<Rightarrow> bool" where
  "registry_ok uc commands =
     (distinct (map fst commands) \<and>
      list_all (\<lambda>(key, command). key = toLowerCase uc (name command)) commands)"

section \<open>The error handler (CLIErrorHandler.handle)\<close>

definition CLIErrorHandler_handle :: "js_error \<Rightarrow> 'u env \<Rightarrow> CommandResult \<times> 'u env" where
  "CLIErrorHandler_handle err e =
     (let (ts, e1) = Date_now e in
      (\<lparr>success = False, data = None, error = Some (error_message err), message = None,
        timestamp = ts, executionTimeMs = 0\<rparr>, e1))"

section \<open>The event emitter (CLIEventEmitter)\<close>

text \<open>
  What \<^verbatim>\<open>emit\<close> hands to the listeners: the object literals the engine and the plugin
  manager build, or any other value. The literal of \<^verbatim>\<open>command:executed\<close> holds the
  command name and the result object itself, that is, its address in the store.
\<close>

datatype event_data =
    CommandExecuted jsstring nat
  | CommandFailed "jsstring option" js_error
  | PluginEvent jsstring
  | OtherData "json option"

text \<open>
  A listener is a function object: \<open>lid\<close> is its identity (the \<^verbatim>\<open>Set\<close> of listeners
  compares by reference, so the same function registered twice is one element) and
  \<open>callback\<close> its body, which throws or returns. A listener acts on the environment,
  which includes the store: it can write to the result object it is handed. It does
  not change the listener table while \<^verbatim>\<open>emit\<close> runs.
\<close>

record 'u listener =
  lid :: nat
  callback :: "event_data \<Rightarrow> 'u env \<Rightarrow> (js_error + unit) \<times> 'u env"

text \<open>
  A \<^verbatim>\<open>Set\<close> of listeners is the list of its elements in insertion order: \<^verbatim>\<open>add\<close> of an
  element it has changes nothing, \<^verbatim>\<open>delete\<close> removes the element.
\<close>

definition Set_has :: "'u listener list \<Rightarrow> 'u listener \<Rightarrow> bool" where
  "Set_has callbacks cb = (lid cb \<in> set (map lid callbacks))"

definition Set_add :: "'u listener list \<Rightarrow> 'u listener \<Rightarrow> 'u listener list" where
  "Set_add callbacks cb = (if Set_has callbacks cb then callbacks else callbacks @ [cb])"

definition Set_delete :: "'u listener list \<Rightarrow> 'u listener \<Rightarrow> 'u listener list" where
  "Set_delete callbacks cb = filter (\<lambda>l. lid l \<noteq> lid cb) callbacks"

type_synonym 'u CLIEventEmitter = "(jsstring \<times> 'u listener list) list"

definition CLIEventEmitter_on ::
  "'u CLIEventEmitter \<Rightarrow> jsstring \<Rightarrow> 'u listener \<Rightarrow> 'u CLIEventEmitter" where
  "CLIEventEmitter_on listeners event cb =
     (let listeners1 =
            (if map_of listeners event = None then AList.update event [] listeners
             else listeners)
      in case map_of listeners1 event of
           None \<Rightarrow> listeners1
         | Some callbacks \<Rightarrow> AList.update event (Set_add callbacks cb) listeners1)"

definition CLIEventEmitter_off ::
  "'u CLIEventEmitter \<Rightarrow> jsstring \<Rightarrow> 'u listener \<Rightarrow> 'u CLIEventEmitter" where
  "CLIEventEmitter_off listeners event cb =
     (case map_of listeners event of
        None \<Rightarrow> listeners
      | Some callbacks \<Rightarrow> AList.update event (Set_delete callbacks cb) listeners)"

text \<open>The callbacks registered for an event, in the order of the \<^verbatim>\<open>Set\<close>.\<close>

definition registered_callbacks :: "'u CLIEventEmitter \<Rightarrow> jsstring \<Rightarrow> 'u listener list" where
  "registered_callbacks listeners event =
     (case map_of listeners event of None \<Rightarrow> [] | Some callbacks \<Rightarrow> callbacks)"

text \<open>
  The body of \<^verbatim>\<open>callbacks.forEach\<close>: the callback runs inside \<^verbatim>\<open>try\<close>, and what it
  throws goes to \<^verbatim>\<open>console.error\<close>.
\<close>

definition invoke_listener ::
  "jsstring \<Rightarrow> event_data \<Rightarrow> 'u env \<Rightarrow> 'u listener \<Rightarrow> 'u env" where
  "invoke_listener event d e cb =
     (case callback cb d e of
        (Inr _, e1) \<Rightarrow> e1
      | (Inl err, e1) \<Rightarrow> e1\<lparr>console := console e1 @ [ListenerFailure event err]\<rparr>)"

definition CLIEventEmitter_emit ::
  "'u CLIEventEmitter \<Rightarrow> jsstring \<Rightarrow> event_data \<Rightarrow> 'u env \<Rightarrow> 'u env" where
  "CLIEventEmitter_emit listeners event d e =
     (case map_of listeners event of
        None \<Rightarrow> e
      | Some callbacks \<Rightarrow> foldl (invoke_listener event d) e callbacks)"

section \<open>The dispatcher (StandardCLIEngine)\<close>

text \<open>
  The engine holds references to the shared registry and event emitter; the record
  carries what they hold when the engine is called. Its logger is the one of the
  environment, its error handler and input validator are the classes above.
\<close>

record 'u StandardCLIEngine =
  commandRegistry :: "'u CommandRecordRegistry"
  eventEmitter :: "'u CLIEventEmitter"

text \<open>
  The \<^verbatim>\<open>try\<close> block of \<^verbatim>\<open>executeCommand\<close>: \<open>Inl\<close> is what it throws. In the last
  branch \<open>result\<close> is the address of the object that \<^verbatim>\<open>execute\<close> returned: the
  assignment to \<^verbatim>\<open>result.executionTimeMs\<close> writes to that object, the listeners receive
  the object, and what is returned is the object as the listeners left it.
\<close>

definition executeCommand_try ::
  "unicode \<Rightarrow> 'u StandardCLIEngine \<Rightarrow> jsstring \<Rightarrow> CLIContext \<Rightarrow> int \<Rightarrow> 'u env
     \<Rightarrow> (js_error + CommandResult) \<times> 'u env" where
  "executeCommand_try uc engine commandName context startTime e =
     (case CommandRecordRegistry_get uc (commandRegistry engine) commandName of
        None \<Rightarrow> (Inl (CommandNotFoundError commandName), e)
      | Some command \<Rightarrow>
          (case validate command context e of
             (Inl err, e1) \<Rightarrow> (Inl err, e1)
           | (Inr validation, e1) \<Rightarrow>
               if \<not> valid validation then
                 (let (ts, e2) = Date_now e1;
                      (now, e3) = Date_now e2
                  in (Inr \<lparr>success = False, data = None,
                            error = Some (str ''Validation failed''),
                            message = Some (join (str ''; '') (errors validation)),
                            timestamp = ts, executionTimeMs = now - startTime\<rparr>, e3))
               else
                 (let e2 = CLILogger_debug (str ''Executing command: '' @ commandName)
                             (ContextData context) e1
                  in case execute command context e2 of
                       (Inl err, e3) \<Rightarrow> (Inl err, e3)
                     | (Inr returned, e3) \<Rightarrow>
                         (let (result, e3a) = new_object returned e3;
                              (now, e3b) = Date_now e3a;
                              e4 = e3b\<lparr>store := (store e3b)
                                     (result := (store e3b result)
                                        \<lparr>executionTimeMs := now - startTime\<rparr>)\<rparr>;
                              e5 = CLILogger_info (str ''Command executed: '' @ commandName)
                                     (ExecutionData (success (store e4 result))
                                        (executionTimeMs (store e4 result))) e4;
                              e6 = CLIEventEmitter_emit (eventEmitter engine)
                                     (str ''command:executed'')
                                     (CommandExecuted commandName result) e5
                          in (Inr (store e6 result), e6)))))"

text \<open>
  \<^verbatim>\<open>executeCommand\<close>: the \<^verbatim>\<open>try\<close> block, and the \<^verbatim>\<open>catch\<close> block on what it throws.
  Every statement of the \<^verbatim>\<open>catch\<close> block returns, so the promise of \<^verbatim>\<open>executeCommand\<close>
  always resolves to a result.
\<close>

definition StandardCLIEngine_executeCommand ::
  "unicode \<Rightarrow> 'u StandardCLIEngine \<Rightarrow> jsstring \<Rightarrow> CLIContext \<Rightarrow> 'u env \<Rightarrow> CommandResult \<times> 'u env" where
  "StandardCLIEngine_executeCommand uc engine commandName context e =
     (let (startTime, e0) = Date_now e in
      case executeCommand_try uc engine commandName context startTime e0 of
        (Inr result, e1) \<Rightarrow> (result, e1)
      | (Inl err, e1) \<Rightarrow>
          (let (result, e2) = CLIErrorHandler_handle err e1;
               (now, e3) = Date_now e2;
               result1 = result\<lparr>executionTimeMs := now - startTime\<rparr>;
               e4 = CLILogger_error (str ''Command execution failed: '' @ commandName)
                      (ErrorData err) e3;
               e5 = CLIEventEmitter_emit (eventEmitter engine) (str ''command:failed'')
                      (CommandFailed (Some commandName) err) e4
           in (result1, e5)))"

text \<open>The \<^verbatim>\<open>try\<close> block of \<^verbatim>\<open>execute\<close>.\<close>

definition execute_try ::
  "unicode \<Rightarrow> 'u StandardCLIEngine \<Rightarrow> jsstring list \<Rightarrow> 'u env \<Rightarrow> (js_error + CommandResult) \<times> 'u env" where
  "execute_try uc engine args e =
     (let context = parseArguments args in
      case arguments context of
        [] \<Rightarrow> (Inl (CommandNotFoundError (str ''No command specified'')), e)
      | commandName # commandArgs \<Rightarrow>
          (let (result, e1) =
                 StandardCLIEngine_executeCommand uc engine commandName
                   (context\<lparr>arguments := commandArgs\<rparr>) e
           in (Inr result, e1)))"

definition StandardCLIEngine_execute ::
  "unicode \<Rightarrow> 'u StandardCLIEngine \<Rightarrow> jsstring list \<Rightarrow> 'u env \<Rightarrow> CommandResult \<times> 'u env" where
  "StandardCLIEngine_execute uc engine args e =
     (let (startTime, e0) = Date_now e in
      case execute_try uc engine args e0 of
        (Inr result, e1) \<Rightarrow> (result, e1)
      | (Inl err, e1) \<Rightarrow>
          (let (result, e2) = CLIErrorHandler_handle err e1;
               (now, e3) = Date_now e2;
               result1 = result\<lparr>executionTimeMs := now - startTime\<rparr>;
               e4 = CLILogger_error (str ''CLI execution failed'') (ErrorData err) e3;
               e5 = CLIEventEmitter_emit (eventEmitter engine) (str ''command:failed'')
                      (CommandFailed None err) e4
           in (result1, e5)))"

section \<open>The output formatter (CLIOutputFormatter.format)\<close>

text \<open>
  Two functions of the JavaScript library are parameters of the formatter:
  \<^verbatim>\<open>JSON.stringify(v, null, 2)\<close> on JSON values and \<^verbatim>\<open>Date.prototype.toISOString\<close>.
  The theorems on the formatter hold whatever these two return.
\<close>

record host =
  JSON_stringify :: "json \<Rightarrow> jsstring"
  toISOString :: "int \<Rightarrow> jsstring"

text \<open>
  The decimal digits of a number, as a template literal prints an integer of magnitude
  below \<open>10\<^sup>2\<^sup>1\<close> (from there on JavaScript prints an exponent; a time in
  milliseconds does not get there).
\<close>

function digits :: "nat \<Rightarrow> jsstring" where
  "digits n = (if n < 10 then [48 + n] else digits (n div 10) @ [48 + n mod 10])"
  by pat_completeness auto
termination
  by (relation "measure id") auto

declare digits.simps [simp del]

definition Number_toString :: "int \<Rightarrow> jsstring" where
  "Number_toString i = (if i < 0 then 45 # digits (nat (- i)) else digits (nat i))"

text \<open>
  Truthiness, as \<^verbatim>\<open>if (result.message)\<close> and \<^verbatim>\<open>if (result.data)\<close> test it: an absent
  field, the empty string, \<^verbatim>\<open>null\<close>, \<^verbatim>\<open>false\<close> and \<^verbatim>\<open>0\<close> are falsy.
\<close>

definition truthy_string :: "jsstring option \<Rightarrow> bool" where
  "truthy_string s = (case s of None \<Rightarrow> False | Some t \<Rightarrow> t \<noteq> [])"

definition truthy_json :: "json option \<Rightarrow> bool" where
  "truthy_json v =
     (case v of
        None \<Rightarrow> False
      | Some JNull \<Rightarrow> False
      | Some (JBool b) \<Rightarrow> b
      | Some (JNum n) \<Rightarrow> n \<noteq> 0
      | Some (JStr s) \<Rightarrow> s \<noteq> []
      | Some _ \<Rightarrow> True)"

text \<open>The text of an optional string that was found truthy.\<close>

definition string_of :: "jsstring option \<Rightarrow> jsstring" where
  "string_of s = (case s of None \<Rightarrow> [] | Some t \<Rightarrow> t)"

text \<open>
  The object that JSON mode serialises: \<^verbatim>\<open>JSON.stringify\<close> leaves out a property whose
  value is \<^verbatim>\<open>undefined\<close>.
\<close>

definition json_of_result :: "host \<Rightarrow> CommandResult \<Rightarrow> json" where
  "json_of_result h result =
     JObj ([(str ''success'', JBool (success result))]
           @ (case data result of None \<Rightarrow> [] | Some d \<Rightarrow> [(str ''data'', d)])
           @ (case error result of None \<Rightarrow> [] | Some s \<Rightarrow> [(str ''error'', JStr s)])
           @ (case message result of None \<Rightarrow> [] | Some s \<Rightarrow> [(str ''message'', JStr s)])
           @ [(str ''timestamp'', JStr (toISOString h (timestamp result))),
              (str ''executionTimeMs'', JNum (executionTimeMs result))])"

text \<open>
  The two marks are single code units: U+2705 (white heavy check mark) and U+274C
  (cross mark). Code unit 10 is the line feed.
\<close>

definition CLIOutputFormatter_format :: "host \<Rightarrow> CommandResult \<Rightarrow> outputFormat \<Rightarrow> jsstring" where
  "CLIOutputFormatter_format h result format =
     (if format = Json then JSON_stringify h (json_of_result h result)
      else if success result then
        (let output = [0x2705] @ str '' Success'';
             output1 = (if truthy_string (message result)
                        then output @ str '': '' @ string_of (message result) else output);
             output2 = (if truthy_json (data result)
                        then output1 @ [10, 10] @ str ''Data:'' @ [10]
                             @ (case data result of
                                  Some (JStr s) \<Rightarrow> s
                                | Some d \<Rightarrow> JSON_stringify h d
                                | None \<Rightarrow> [])
                        else output1)
         in output2 @ [10, 10] @ str ''Execution time: ''
              @ Number_toString (executionTimeMs result) @ str ''ms'')
      else
        (let output = [0x274C] @ str '' Error'';
             output1 = (if truthy_string (error result)
                        then output @ str '': '' @ string_of (error result) else output);
             output2 = (if truthy_string (message result)
                        then output1 @ [10] @ str ''Message: '' @ string_of (message result)
                        else output1)
         in output2))"

text \<open>\<^verbatim>\<open>s.includes(p)\<close>: the string \<open>p\<close> occurs in \<open>s\<close>.\<close>

fun String_includes :: "jsstring \<Rightarrow> jsstring \<Rightarrow> bool" where
  "String_includes [] p = (p = [])"
| "String_includes (c # cs) p = (startsWith (c # cs) p \<or> String_includes cs p)"

text \<open>\<^verbatim>\<open>s.endsWith(p)\<close>.\<close>

definition endsWith :: "jsstring \<Rightarrow> jsstring \<Rightarrow> bool" where
  "endsWith s p = (length p \<le> length s \<and> drop (length s - length p) s = p)"

section \<open>The service container (DIContainer)\<close>

text \<open>
  The container holds values of type \<^verbatim>\<open>any\<close>. An object is either the logger (the
  \<^verbatim>\<open>CLILogger\<close> whose state is in the environment) or some other object, given by its
  identity. A service is an object, or a factory function, given by the object its
  call creates.
\<close>

datatype service_object = Logger_object | Other_object nat

datatype service = Instance service_object | Factory service_object

record DIContainer =
  services :: "(jsstring \<times> service) list"
  singletons :: "(jsstring \<times> service) list"

definition DIContainer_register :: "DIContainer \<Rightarrow> jsstring \<Rightarrow> service \<Rightarrow> DIContainer" where
  "DIContainer_register c key service = c\<lparr>services := AList.update key service (services c)\<rparr>"

definition DIContainer_registerSingleton ::
  "DIContainer \<Rightarrow> jsstring \<Rightarrow> service \<Rightarrow> DIContainer" where
  "DIContainer_registerSingleton c key instance =
     c\<lparr>services := AList.update key instance (services c),
       singletons := AList.update key instance (singletons c)\<rparr>"

definition DIContainer_registerFactory ::
  "DIContainer \<Rightarrow> jsstring \<Rightarrow> service \<Rightarrow> DIContainer" where
  "DIContainer_registerFactory c key factory =
     c\<lparr>services := AList.update key factory (services c)\<rparr>"

definition DIContainer_has :: "DIContainer \<Rightarrow> jsstring \<Rightarrow> bool" where
  "DIContainer_has c key = (key \<in> set (map fst (services c)))"

text \<open>
  \<^verbatim>\<open>get\<close> throws on a key that was not registered. On a factory with no singleton yet
  it calls the factory, records the instance and returns it; on a factory whose
  singleton is recorded it returns the service as it is registered, which is the
  factory function.
\<close>

definition DIContainer_get :: "DIContainer \<Rightarrow> jsstring \<Rightarrow> (js_error + service) \<times> DIContainer" where
  "DIContainer_get c key =
     (case map_of (services c) key of
        Some service \<Rightarrow>
          (case service of
             Factory obj \<Rightarrow>
               if key \<notin> set (map fst (singletons c)) then
                 (Inr (Instance obj),
                  c\<lparr>singletons := AList.update key (Instance obj) (singletons c)\<rparr>)
               else (Inr service, c)
           | Instance obj \<Rightarrow> (Inr service, c))
      | None \<Rightarrow>
          (Inl (JsError (str ''Error'')
                  (str ''Service '' @ [39] @ key @ [39] @ str '' not found in container'')),
           c))"

section \<open>The plugin manager (PluginManager)\<close>

text \<open>
  What a plugin can reach through the container it is handed: the container itself,
  the shared registry and event emitter, and the environment. \<^verbatim>\<open>initialize\<close> and
  \<^verbatim>\<open>shutdown\<close> throw or return, and what they did before they threw stays done.
\<close>

record 'u sys =
  sys_container :: DIContainer
  sys_registry :: "'u CommandRecordRegistry"
  sys_emitter :: "'u CLIEventEmitter"
  sys_env :: "'u env"

record 'u Plugin =
  initialize :: "'u sys \<Rightarrow> (js_error + unit) \<times> 'u sys"
  shutdown :: "'u sys \<Rightarrow> (js_error + unit) \<times> 'u sys"

text \<open>
  The plugin manager casts what the container returns for the key \<^verbatim>\<open>logger\<close> to
  \<^verbatim>\<open>CLILogger\<close> without a check and calls its methods. On the logger object the call is
  the logger's method; on any other value (another object, a factory function) the
  method is undefined and the call throws a \<^verbatim>\<open>TypeError\<close>.
\<close>

definition logger_call ::
  "service \<Rightarrow> jsstring \<Rightarrow> (jsstring \<Rightarrow> log_data \<Rightarrow> 'u env \<Rightarrow> 'u env) \<Rightarrow> jsstring \<Rightarrow> log_data
     \<Rightarrow> 'u env \<Rightarrow> (js_error + unit) \<times> 'u env" where
  "logger_call logger method_name method msg d e =
     (if logger = Instance Logger_object then (Inr (), method msg d e)
      else (Inl (JsError (str ''TypeError'')
                   (str ''logger.'' @ method_name @ str '' is not a function'')), e))"

text \<open>The state of the plugin manager is its map \<^verbatim>\<open>loadedPlugins\<close>.\<close>

type_synonym 'u PluginManager = "(jsstring \<times> 'u Plugin) list"

text \<open>
  The \<^verbatim>\<open>try\<close> block of \<^verbatim>\<open>loadPlugin\<close>: \<open>Inl\<close> is what it throws, with the map and the
  system as they stand at the throw.
\<close>

definition loadPlugin_try ::
  "service \<Rightarrow> 'u PluginManager \<Rightarrow> jsstring \<Rightarrow> 'u Plugin \<Rightarrow> 'u sys
     \<Rightarrow> (js_error + unit) \<times> 'u PluginManager \<times> 'u sys" where
  "loadPlugin_try logger loadedPlugins pname plugin s =
     (case logger_call logger (str ''info'') CLILogger_info
             (str ''Loading plugin: '' @ pname) NoData (sys_env s) of
        (Inl err, e1) \<Rightarrow> (Inl err, loadedPlugins, s\<lparr>sys_env := e1\<rparr>)
      | (Inr _, e1) \<Rightarrow>
          (case initialize plugin (s\<lparr>sys_env := e1\<rparr>) of
             (Inl err, s2) \<Rightarrow> (Inl err, loadedPlugins, s2)
           | (Inr _, s2) \<Rightarrow>
               (let loadedPlugins1 = AList.update pname plugin loadedPlugins in
                case logger_call logger (str ''info'') CLILogger_info
                       (str ''Plugin loaded: '' @ pname) NoData (sys_env s2) of
                  (Inl err, e3) \<Rightarrow> (Inl err, loadedPlugins1, s2\<lparr>sys_env := e3\<rparr>)
                | (Inr _, e3) \<Rightarrow>
                    (Inr (), loadedPlugins1,
                     s2\<lparr>sys_env := CLIEventEmitter_emit (sys_emitter s2) (str ''plugin:loaded'')
                                       (PluginEvent pname) e3\<rparr>))))"

text \<open>
  \<^verbatim>\<open>loadPlugin\<close>: the logger is fetched before the \<^verbatim>\<open>try\<close> block, so what \<^verbatim>\<open>get\<close> throws
  leaves \<^verbatim>\<open>loadPlugin\<close> at once. The \<^verbatim>\<open>catch\<close> block calls \<^verbatim>\<open>logger.error\<close> and throws the
  caught error again; when \<^verbatim>\<open>logger.error\<close> itself throws, that is what leaves
  \<^verbatim>\<open>loadPlugin\<close>.
\<close>

definition PluginManager_loadPlugin ::
  "'u PluginManager \<Rightarrow> jsstring \<Rightarrow> 'u Plugin \<Rightarrow> 'u sys
     \<Rightarrow> (js_error + unit) \<times> 'u PluginManager \<times> 'u sys" where
  "PluginManager_loadPlugin loadedPlugins pname plugin s =
     (case DIContainer_get (sys_container s) (str ''logger'') of
        (Inl err, c) \<Rightarrow> (Inl err, loadedPlugins, s\<lparr>sys_container := c\<rparr>)
      | (Inr logger, c) \<Rightarrow>
          (case loadPlugin_try logger loadedPlugins pname plugin (s\<lparr>sys_container := c\<rparr>) of
             (Inr _, loadedPlugins1, s1) \<Rightarrow> (Inr (), loadedPlugins1, s1)
           | (Inl err, loadedPlugins1, s1) \<Rightarrow>
               (case logger_call logger (str ''error'') CLILogger_error
                       (str ''Failed to load plugin '' @ pname) (ErrorData err) (sys_env s1) of
                  (Inl err2, e2) \<Rightarrow> (Inl err2, loadedPlugins1, s1\<lparr>sys_env := e2\<rparr>)
                | (Inr _, e2) \<Rightarrow> (Inl err, loadedPlugins1, s1\<lparr>sys_env := e2\<rparr>))))"

text \<open>The \<^verbatim>\<open>try\<close> block of \<^verbatim>\<open>unloadPlugin\<close>.\<close>

definition unloadPlugin_try ::
  "service \<Rightarrow> 'u PluginManager \<Rightarrow> jsstring \<Rightarrow> 'u Plugin \<Rightarrow> 'u sys
     \<Rightarrow> (js_error + unit) \<times> 'u PluginManager \<times> 'u sys" where
  "unloadPlugin_try logger loadedPlugins pname plugin s =
     (case logger_call logger (str ''info'') CLILogger_info
             (str ''Unloading plugin: '' @ pname) NoData (sys_env s) of
        (Inl err, e1) \<Rightarrow> (Inl err, loadedPlugins, s\<lparr>sys_env := e1\<rparr>)
      | (Inr _, e1) \<Rightarrow>
          (case shutdown plugin (s\<lparr>sys_env := e1\<rparr>) of
             (Inl err, s2) \<Rightarrow> (Inl err, loadedPlugins, s2)
           | (Inr _, s2) \<Rightarrow>
               (let loadedPlugins1 = AList.delete pname loadedPlugins in
                case logger_call logger (str ''info'') CLILogger_info
                       (str ''Plugin unloaded: '' @ pname) NoData (sys_env s2) of
                  (Inl err, e3) \<Rightarrow> (Inl err, loadedPlugins1, s2\<lparr>sys_env := e3\<rparr>)
                | (Inr _, e3) \<Rightarrow>
                    (Inr (), loadedPlugins1,
                     s2\<lparr>sys_env := CLIEventEmitter_emit (sys_emitter s2) (str ''plugin:unloaded'')
                                       (PluginEvent pname) e3\<rparr>))))"

definition PluginManager_unloadPlugin ::
  "'u PluginManager \<Rightarrow> jsstring \<Rightarrow> 'u sys \<Rightarrow> (js_error + unit) \<times> 'u PluginManager \<times> 'u sys" where
  "PluginManager_unloadPlugin loadedPlugins pname s =
     (case DIContainer_get (sys_container s) (str ''logger'') of
        (Inl err, c) \<Rightarrow> (Inl err, loadedPlugins, s\<lparr>sys_container := c\<rparr>)
      | (Inr logger, c) \<Rightarrow>
          (let s0 = s\<lparr>sys_container := c\<rparr> in
           case map_of loadedPlugins pname of
             None \<Rightarrow>
               (case logger_call logger (str ''warn'') CLILogger_warn
                       (str ''Plugin not found: '' @ pname) NoData (sys_env s0) of
                  (Inl err, e1) \<Rightarrow> (Inl err, loadedPlugins, s0\<lparr>sys_env := e1\<rparr>)
                | (Inr _, e1) \<Rightarrow> (Inr (), loadedPlugins, s0\<lparr>sys_env := e1\<rparr>))
           | Some plugin \<Rightarrow>
               (case unloadPlugin_try logger loadedPlugins pname plugin s0 of
                  (Inr _, loadedPlugins1, s1) \<Rightarrow> (Inr (), loadedPlugins1, s1)
                | (Inl err, loadedPlugins1, s1) \<Rightarrow>
                    (case logger_call logger (str ''error'') CLILogger_error
                            (str ''Failed to unload plugin '' @ pname) (ErrorData err)
                            (sys_env s1) of
                       (Inl err2, e2) \<Rightarrow> (Inl err2, loadedPlugins1, s1\<lparr>sys_env := e2\<rparr>)
                     | (Inr _, e2) \<Rightarrow> (Inl err, loadedPlugins1, s1\<lparr>sys_env := e2\<rparr>)))))"

definition PluginManager_getLoadedPlugins :: "'u PluginManager \<Rightarrow> jsstring list" where
  "PluginManager_getLoadedPlugins loadedPlugins = map fst loadedPlugins"

definition PluginManager_isPluginLoaded :: "'u PluginManager \<Rightarrow> jsstring \<Rightarrow> bool" where
  "PluginManager_isPluginLoaded loadedPlugins pname = (pname \<in> set (map fst loadedPlugins))"

section \<open>The agent adapter (ProgrammaticCLIAgent)\<close>

text \<open>
  The white space that the regular expression \<^verbatim>\<open>\s\<close> matches: the white space and line
  terminator code units of ECMAScript.
\<close>

definition is_space :: "nat \<Rightarrow> bool" where
  "is_space c =
     (c \<in> {0x09, 0x0A, 0x0B, 0x0C, 0x0D, 0x20, 0xA0, 0x1680, 0x2028, 0x2029, 0x202F,
            0x205F, 0x3000, 0xFEFF}
      \<or> (0x2000 \<le> c \<and> c \<le> 0x200A))"

text \<open>
  \<^verbatim>\<open>usage.split(/\s+/)\<close>: the string is cut at every maximal run of white space; a run
  at either end leaves an empty part there.
\<close>

function split_spaces :: "jsstring \<Rightarrow> jsstring list" where
  "split_spaces [] = [[]]"
| "split_spaces (c # cs) =
     (if is_space c then [] # split_spaces (dropWhile is_space cs)
      else (case split_spaces cs of
              [] \<Rightarrow> [[c]]
            | p # ps \<Rightarrow> (c # p) # ps))"
  by pat_completeness auto
termination
  by (relation "measure length") (auto simp: length_dropWhile_le less_Suc_eq_le)

record ToolParameter =
  param_name :: jsstring
  param_type :: jsstring
  param_description :: jsstring
  param_required :: bool

definition parseUsageToParameters :: "jsstring \<Rightarrow> ToolParameter list" where
  "parseUsageToParameters usage_text =
     map (\<lambda>part.
            (let paramName = filter (\<lambda>c. c \<noteq> of_char CHR ''<'' \<and> c \<noteq> of_char CHR ''>'') part in
             \<lparr>param_name = paramName, param_type = str ''string'',
              param_description = str ''Parameter: '' @ paramName, param_required = True\<rparr>))
       (filter (\<lambda>part. startsWith part (str ''<'') \<and> endsWith part (str ''>''))
          (drop 1 (split_spaces usage_text)))"

text \<open>
  A tool: its three data fields, and for its \<^verbatim>\<open>execute\<close> closure the one variable of
  the loop that the closure captures, the command's name, which it hands to
  \<^verbatim>\<open>executeCommand\<close> of the engine when it is called.
\<close>

record AgentTool =
  tool_name :: jsstring
  tool_description :: jsstring
  tool_parameters :: "ToolParameter list"
  tool_command :: jsstring

text \<open>
  The agent keeps a reference to the registry and its own map \<^verbatim>\<open>tools\<close>, filled once by
  the constructor; the map is keyed by the command's name as it is written.
\<close>

type_synonym ProgrammaticCLIAgent = "(jsstring \<times> AgentTool) list"

definition tool_of_command :: "'u Command \<Rightarrow> AgentTool" where
  "tool_of_command command =
     \<lparr>tool_name = name command, tool_description = description command,
      tool_parameters = parseUsageToParameters (usage command),
      tool_command = name command\<rparr>"

definition buildToolsFromCommands ::
  "ProgrammaticCLIAgent \<Rightarrow> 'u CommandRecordRegistry \<Rightarrow> ProgrammaticCLIAgent" where
  "buildToolsFromCommands tools commandRegistry_now =
     foldl (\<lambda>tools1 command. AList.update (name command) (tool_of_command command) tools1)
       tools (CommandRecordRegistry_getAll commandRegistry_now)"

definition ProgrammaticCLIAgent_new :: "'u CommandRecordRegistry \<Rightarrow> ProgrammaticCLIAgent" where
  "ProgrammaticCLIAgent_new commandRegistry_now = buildToolsFromCommands [] commandRegistry_now"

definition ProgrammaticCLIAgent_getTools :: "ProgrammaticCLIAgent \<Rightarrow> AgentTool list" where
  "ProgrammaticCLIAgent_getTools tools = map snd tools"

definition ProgrammaticCLIAgent_getTool :: "ProgrammaticCLIAgent \<Rightarrow> jsstring \<Rightarrow> AgentTool option" where
  "ProgrammaticCLIAgent_getTool tools toolName = map_of tools toolName"

text \<open>
  An application holds the shared registry and an agent built from it. Registering a
  command afterwards is a call of \<^verbatim>\<open>register\<close> on the registry; no method of the agent
  runs.
\<close>

record 'u app =
  app_registry :: "'u CommandRecordRegistry"
  app_agent :: ProgrammaticCLIAgent

definition app_new_agent :: "'u CommandRecordRegistry \<Rightarrow> 'u app" where
  "app_new_agent commands =
     \<lparr>app_registry = commands, app_agent = ProgrammaticCLIAgent_new commands\<rparr>"

definition app_register :: "unicode \<Rightarrow> 'u app \<Rightarrow> 'u Command \<Rightarrow> 'u app" where
  "app_register uc a command =
     a\<lparr>app_registry := CommandRecordRegistry_register uc (app_registry a) command\<rparr>"

section \<open>Example objects\<close>

text \<open>
  Concrete commands, listeners, plugins and environments on which the theorems below
  are instantiated. The user state is a counter that the example code increments when
  it runs.
\<close>

text \<open>
  Case tables for the examples. Every string that the examples lower-case or
  upper-case lies within U+0000 to U+00FF, so that nothing evaluated below depends on
  these two functions.
\<close>

definition unicode0 :: unicode where
  "unicode0 = \<lparr>lowerCase_beyond = (\<lambda>s. s), upperCase_beyond = (\<lambda>s. s)\<rparr>"

text \<open>
  A command with the default \<^verbatim>\<open>validate\<close> of the base class; its \<^verbatim>\<open>execute\<close> counts the
  call and reports an execution time of its own.
\<close>

definition counting_command :: "jsstring \<Rightarrow> nat Command" where
  "counting_command n =
     \<lparr>name = n, description = str ''counts its executions'', usage = n,
      validate = (\<lambda>context e. (Inr \<lparr>valid = True, errors = []\<rparr>, e)),
      execute = (\<lambda>context e.
        (Inr \<lparr>success = True, data = Some (JNum 7), error = None,
              message = Some (str ''done''), timestamp = 0, executionTimeMs = 999\<rparr>,
         e\<lparr>user := Suc (user e)\<rparr>))\<rparr>"

text \<open>A command whose \<^verbatim>\<open>validate\<close> always reports two errors.\<close>

definition rejecting_command :: "jsstring \<Rightarrow> nat Command" where
  "rejecting_command n =
     \<lparr>name = n, description = str ''rejects every input'', usage = n,
      validate = (\<lambda>context e.
        (Inr \<lparr>valid = False, errors = [str ''bad input'', str ''worse'']\<rparr>, e)),
      execute = (\<lambda>context e.
        (Inr \<lparr>success = True, data = None, error = None, message = None,
              timestamp = 0, executionTimeMs = 0\<rparr>,
         e\<lparr>user := Suc (user e)\<rparr>))\<rparr>"

text \<open>
  A clock that starts at 1000 and advances 5 ms with every reading, and a store with
  no object in use yet.
\<close>

definition blank_result :: CommandResult where
  "blank_result = \<lparr>success = False, data = None, error = None, message = None,
                    timestamp = 0, executionTimeMs = 0\<rparr>"

definition env0 :: "nat env" where
  "env0 = \<lparr>clock = (\<lambda>n. 1000 + 5 * int n), reads = 0, console = [],
           logger_verbose = False, store = (\<lambda>a. blank_result), next_ref = 0, user = 0\<rparr>"

definition context0 :: CLIContext where
  "context0 = \<lparr>arguments = [], options = Map.empty, outputFormat = Text, verbose = False\<rparr>"

definition throwing_listener :: "nat listener" where
  "throwing_listener =
     \<lparr>lid = 1, callback = (\<lambda>d e. (Inl (JsError (str ''Error'') (str ''boom'')), e))\<rparr>"

definition counting_listener :: "nat listener" where
  "counting_listener = \<lparr>lid = 2, callback = (\<lambda>d e. (Inr (), e\<lparr>user := Suc (user e)\<rparr>))\<rparr>"

text \<open>
  A listener of \<^verbatim>\<open>command:executed\<close> that writes to the result it is handed: it sets
  \<^verbatim>\<open>success\<close> to false and \<^verbatim>\<open>executionTimeMs\<close> to 0.
\<close>

definition tampering_listener :: "nat listener" where
  "tampering_listener =
     \<lparr>lid = 3,
      callback = (\<lambda>d e.
        case d of
          CommandExecuted commandName result \<Rightarrow>
            (Inr (), e\<lparr>store := (store e)
                        (result := (store e result)\<lparr>success := False, executionTimeMs := 0\<rparr>)\<rparr>)
        | _ \<Rightarrow> (Inr (), e))\<rparr>"

text \<open>A plugin that registers one command, and one whose \<^verbatim>\<open>initialize\<close> throws.\<close>

definition good_plugin :: "nat Plugin" where
  "good_plugin =
     \<lparr>initialize = (\<lambda>s.
        (Inr (), s\<lparr>sys_registry :=
                     CommandRecordRegistry_register unicode0 (sys_registry s)
                       (counting_command (str ''greet''))\<rparr>)),
      shutdown = (\<lambda>s. (Inr (), s))\<rparr>"

definition failing_plugin :: "nat Plugin" where
  "failing_plugin =
     \<lparr>initialize = (\<lambda>s. (Inl (JsError (str ''ConfigError'') (str ''missing API key'')), s)),
      shutdown = (\<lambda>s. (Inr (), s))\<rparr>"

text \<open>
  A system whose container holds a logger, as the bootstrap registers it, and whose
  emitter has the counting listener on \<^verbatim>\<open>plugin:loaded\<close>.
\<close>

definition sys0 :: "nat sys" where
  "sys0 =
     \<lparr>sys_container =
        DIContainer_registerSingleton \<lparr>services = [], singletons = []\<rparr> (str ''logger'')
          (Instance Logger_object),
      sys_registry = [],
      sys_emitter = CLIEventEmitter_on [] (str ''plugin:loaded'') counting_listener,
      sys_env = env0\<rparr>"

text \<open>The outcome of loading the good plugin under the name \<^verbatim>\<open>images\<close>.\<close>

definition loaded_once :: "(js_error + unit) \<times> nat PluginManager \<times> nat sys" where
  "loaded_once = PluginManager_loadPlugin [] (str ''images'') good_plugin sys0"

text \<open>
  A system whose container holds the logger as a factory, after the logger was fetched
  once: the container has recorded the singleton, and the next \<^verbatim>\<open>get\<close> returns the
  factory function.
\<close>

definition sys_factory :: "nat sys" where
  "sys_factory =
     sys0\<lparr>sys_container :=
            snd (DIContainer_get
                   (DIContainer_registerFactory \<lparr>services = [], singletons = []\<rparr> (str ''logger'')
                      (Factory Logger_object))
                   (str ''logger''))\<rparr>"

definition host0 :: host where
  "host0 = \<lparr>JSON_stringify = (\<lambda>v. str ''{}''), toISOString = (\<lambda>t. str ''1970'')\<rparr>"

text \<open>
  An engine with the two example commands and, on \<^verbatim>\<open>command:executed\<close>, the throwing
  listener registered before the counting one.
\<close>

definition engine0 :: "nat StandardCLIEngine" where
  "engine0 =
     \<lparr>commandRegistry =
        CommandRecordRegistry_register unicode0
          (CommandRecordRegistry_register unicode0 [] (rejecting_command (str ''strict'')))
          (counting_command (str ''count'')),
      eventEmitter =
        CLIEventEmitter_on
          (CLIEventEmitter_on [] (str ''command:executed'') throwing_listener)
          (str ''command:executed'') counting_listener\<rparr>"

text \<open>An engine with the counting command and the tampering listener.\<close>

definition engine1 :: "nat StandardCLIEngine" where
  "engine1 =
     \<lparr>commandRegistry =
        CommandRecordRegistry_register unicode0 [] (counting_command (str ''count'')),
      eventEmitter = CLIEventEmitter_on [] (str ''command:executed'') tampering_listener\<rparr>"

section \<open>Strings: basic facts\<close>

lemma split_no_sep: "sep \<notin> set s \<Longrightarrow> split sep s = [s]"
  by (induction s) auto

lemma split_at_first: "sep \<notin> set k \<Longrightarrow> split sep (k @ sep # rest) = k # split sep rest"
  by (induction k) auto

lemma split_not_Nil: "split sep s \<noteq> []"
  by (induction s) (auto split: list.splits)

lemma hd_split: "hd (split sep s) = takeWhile (\<lambda>c. c \<noteq> sep) s"
  by (induction s) (auto split: list.splits simp: split_not_Nil)

lemma lower_unit_idem: "lower_unit (lower_unit c) = lower_unit c"
  by (simp add: lower_unit_def)

lemma lower_unit_latin1: "c \<le> 0xFF \<Longrightarrow> lower_unit c \<le> 0xFF"
  by (simp add: lower_unit_def)

lemma latin1_map_lower_unit: "latin1 s \<Longrightarrow> latin1 (map lower_unit s)"
  by (induction s) (simp_all add: latin1_def lower_unit_latin1)

lemma toLowerCase_idem: "latin1 s \<Longrightarrow> toLowerCase uc (toLowerCase uc s) = toLowerCase uc s"
  by (simp add: toLowerCase_def lower_unit_idem latin1_map_lower_unit)

lemma ascii_latin1: "list_all (\<lambda>c. c < 128) s \<Longrightarrow> latin1 s"
  by (induction s) (simp_all add: latin1_def)

lemma upper_units_ascii: "c < 128 \<Longrightarrow> list_all (\<lambda>c. c < 128) (upper_units c)"
  by (auto simp add: upper_units_def)

lemma ascii_upper: "list_all (\<lambda>c. c < 128) s \<Longrightarrow> list_all (\<lambda>c. c < 128) (concat (map upper_units s))"
  by (induction s) (simp_all add: upper_units_ascii)

lemma lower_upper_ascii: "c < 128 \<Longrightarrow> map lower_unit (upper_units c) = [lower_unit c]"
  by (auto simp add: lower_unit_def upper_units_def)

lemma map_lower_concat_upper:
  "list_all (\<lambda>c. c < 128) s \<Longrightarrow> map lower_unit (concat (map upper_units s)) = map lower_unit s"
  by (induction s) (simp_all add: lower_upper_ascii)

lemma toLowerCase_toUpperCase_ascii:
  "list_all (\<lambda>c. c < 128) s \<Longrightarrow> toLowerCase uc (toUpperCase uc s) = toLowerCase uc s"
  using ascii_latin1[of s] ascii_latin1[OF ascii_upper, of s]
  by (simp add: toLowerCase_def toUpperCase_def map_lower_concat_upper)

section \<open>The input parser: the value of a long option\<close>

text \<open>
  A long option with no equals sign has the value \<^verbatim>\<open>true\<close>. With an equals sign, the
  key is what stands before the first one, and the value is what stands between the
  first one and the second one (or the end of the token).
\<close>

lemma long_value_flag: "of_char CHR ''='' \<notin> set (drop 2 arg) \<Longrightarrow> long_value arg = OBool True"
  by (simp add: long_value_def long_parts_def substring_def split_no_sep)

lemma long_value_value:
  assumes "drop 2 arg = k @ of_char CHR ''='' # rest" and "of_char CHR ''='' \<notin> set k"
  shows "long_key arg = k"
    and "long_value arg = OStr (takeWhile (\<lambda>c. c \<noteq> of_char CHR ''='') rest)"
proof -
  obtain p ps where ps: "split (of_char CHR ''='') rest = p # ps"
    using split_not_Nil[of "of_char CHR ''=''" rest] by (cases "split (of_char CHR ''='') rest") auto
  then have p: "p = takeWhile (\<lambda>c. c \<noteq> of_char CHR ''='') rest"
    using hd_split[of "of_char CHR ''=''" rest] by simp
  have parts: "long_parts arg = k # p # ps"
    using assms ps by (simp add: long_parts_def substring_def split_at_first)
  show "long_key arg = k" using parts by (simp add: long_key_def)
  show "long_value arg = OStr (takeWhile (\<lambda>c. c \<noteq> of_char CHR ''='') rest)"
    using parts p by (simp add: long_value_def)
qed

lemma parseArguments_empty_value:
  "options (parseArguments [str ''--flag='']) (str ''flag'') = Some (OStr [])"
  by (simp add: parseArguments_def parse_token_def long_key_def long_value_def long_parts_def
      substring_def startsWith_def str_def)

text \<open>
  C2. The claim: the value of a long option is the entire text after the first equals
  sign, so that the token \<^verbatim>\<open>--k=a=b\<close> gives the option \<^verbatim>\<open>k\<close> the value \<^verbatim>\<open>a=b\<close>. The code
  splits the token at every equals sign and takes the second part: on the token
  \<^verbatim>\<open>--k=a=b\<close> the option \<^verbatim>\<open>k\<close> gets the value \<^verbatim>\<open>a\<close>, and the rest of the token is lost.
\<close>

theorem parseArguments_cuts_value_at_second_equals:
  "options (parseArguments [str ''--k=a=b'']) (str ''k'') = Some (OStr (str ''a'')) \<and>
   options (parseArguments [str ''--k=a=b'']) (str ''k'') \<noteq> Some (OStr (str ''a=b''))"
  by (simp add: parseArguments_def parse_token_def long_key_def long_value_def long_parts_def
      substring_def startsWith_def str_def)

section \<open>The registry: lookup after two registrations\<close>

lemma get_empty: "CommandRecordRegistry_get uc [] k = None"
  by (simp add: CommandRecordRegistry_get_def)

lemma get_register:
  "CommandRecordRegistry_get uc (CommandRecordRegistry_register uc r c) k =
     (if toLowerCase uc k = toLowerCase uc (name c) then Some c else CommandRecordRegistry_get uc r k)"
  by (simp add: CommandRecordRegistry_get_def CommandRecordRegistry_register_def update_conv')

text \<open>
  C5, as amended. For two commands whose names have the same lower-casing, after
  \<^verbatim>\<open>register(c1)\<close> and then \<^verbatim>\<open>register(c2)\<close> (which raises nothing), \<^verbatim>\<open>get(k)\<close> returns \<open>c2\<close>
  for every key \<open>k\<close> with that lower-casing: lookup is folded with \<^verbatim>\<open>toLowerCase\<close> and the
  last registration wins, whatever the Unicode tables are. So \<^verbatim>\<open>get\<close> of the lower-cased
  name returns \<open>c2\<close> when lower-casing the lower-cased name gives it back, as it does for
  every name within U+0000 to U+00FF, and \<^verbatim>\<open>get\<close> of the upper-cased name returns \<open>c2\<close>
  when lower-casing the upper-cased name gives the key back, as it does for every name
  of ASCII code units.
\<close>

theorem registry_last_registration_wins:
  assumes "toLowerCase uc (name c1) = toLowerCase uc (name c2)"
  shows "(\<forall>k. toLowerCase uc k = toLowerCase uc (name c1) \<longrightarrow>
            CommandRecordRegistry_get uc
              (CommandRecordRegistry_register uc (CommandRecordRegistry_register uc r c1) c2) k
              = Some c2)
       \<and> (toLowerCase uc (toLowerCase uc (name c1)) = toLowerCase uc (name c1) \<longrightarrow>
            CommandRecordRegistry_get uc
              (CommandRecordRegistry_register uc (CommandRecordRegistry_register uc r c1) c2)
              (toLowerCase uc (name c1)) = Some c2)
       \<and> (latin1 (name c1) \<longrightarrow>
            CommandRecordRegistry_get uc
              (CommandRecordRegistry_register uc (CommandRecordRegistry_register uc r c1) c2)
              (toLowerCase uc (name c1)) = Some c2)
       \<and> (toLowerCase uc (toUpperCase uc (name c1)) = toLowerCase uc (name c1) \<longrightarrow>
            CommandRecordRegistry_get uc
              (CommandRecordRegistry_register uc (CommandRecordRegistry_register uc r c1) c2)
              (toUpperCase uc (name c1)) = Some c2)
       \<and> (list_all (\<lambda>c. c < 128) (name c1) \<longrightarrow>
            CommandRecordRegistry_get uc
              (CommandRecordRegistry_register uc (CommandRecordRegistry_register uc r c1) c2)
              (toUpperCase uc (name c1)) = Some c2)"
proof -
  have key: "CommandRecordRegistry_get uc
      (CommandRecordRegistry_register uc (CommandRecordRegistry_register uc r c1) c2) k = Some c2"
    if "toLowerCase uc k = toLowerCase uc (name c1)" for k
    using that assms by (simp add: get_register)
  show ?thesis
    using key toLowerCase_idem[of "name c1" uc] toLowerCase_toUpperCase_ascii[of "name c1" uc]
    by simp
qed

theorem registry_last_registration_wins_witness:
  "toLowerCase unicode0 (name (counting_command (str ''Echo''))) =
     toLowerCase unicode0 (name (rejecting_command (str ''ECHO'')))
   \<and> list_all (\<lambda>c. c < 128) (name (counting_command (str ''Echo'')))
   \<and> latin1 (name (counting_command (str ''Echo'')))
   \<and> toLowerCase unicode0 (name (counting_command (str ''Echo''))) = str ''echo''
   \<and> toUpperCase unicode0 (name (counting_command (str ''Echo''))) = str ''ECHO''
   \<and> CommandRecordRegistry_get unicode0
       (CommandRecordRegistry_register unicode0
          (CommandRecordRegistry_register unicode0 [] (counting_command (str ''Echo'')))
          (rejecting_command (str ''ECHO'')))
       (str ''echo'') = Some (rejecting_command (str ''ECHO''))
   \<and> CommandRecordRegistry_get unicode0
       (CommandRecordRegistry_register unicode0
          (CommandRecordRegistry_register unicode0 [] (counting_command (str ''Echo'')))
          (rejecting_command (str ''ECHO'')))
       (str ''ECHO'') = Some (rejecting_command (str ''ECHO''))"
proof -
  have same: "toLowerCase unicode0 (name (counting_command (str ''Echo''))) =
     toLowerCase unicode0 (name (rejecting_command (str ''ECHO'')))"
    by (simp add: counting_command_def rejecting_command_def toLowerCase_def latin1_def
        lower_unit_def str_def)
  have ascii: "list_all (\<lambda>c. c < 128) (name (counting_command (str ''Echo'')))"
    by (simp add: counting_command_def str_def)
  have lat: "latin1 (name (counting_command (str ''Echo'')))"
    using ascii by (rule ascii_latin1)
  have low: "toLowerCase unicode0 (name (counting_command (str ''Echo''))) = str ''echo''"
    by (simp add: counting_command_def toLowerCase_def latin1_def lower_unit_def str_def)
  have up: "toUpperCase unicode0 (name (counting_command (str ''Echo''))) = str ''ECHO''"
    by (simp add: counting_command_def toUpperCase_def latin1_def upper_units_def str_def)
  note T = registry_last_registration_wins [OF same, of "[]"]
  have g1: "CommandRecordRegistry_get unicode0
       (CommandRecordRegistry_register unicode0
          (CommandRecordRegistry_register unicode0 [] (counting_command (str ''Echo'')))
          (rejecting_command (str ''ECHO'')))
       (toLowerCase unicode0 (name (counting_command (str ''Echo''))))
       = Some (rejecting_command (str ''ECHO''))"
    using T lat by blast
  have g2: "CommandRecordRegistry_get unicode0
       (CommandRecordRegistry_register unicode0
          (CommandRecordRegistry_register unicode0 [] (counting_command (str ''Echo'')))
          (rejecting_command (str ''ECHO'')))
       (toUpperCase unicode0 (name (counting_command (str ''Echo''))))
       = Some (rejecting_command (str ''ECHO''))"
    using T ascii by blast
  show ?thesis
    using same ascii lat low up g1 g2 by simp
qed

text \<open>
  The claim of C5 as it is stated fails on a name that upper-casing does not send back
  to the same key: the sharp s (U+00DF) upper-cases to \<^verbatim>\<open>SS\<close>, whose lower-casing \<^verbatim>\<open>ss\<close> is
  not the key of the command, and \<^verbatim>\<open>get\<close> of the upper-cased name finds nothing. The three
  strings lie within U+0000 to U+00FF, so this is so whatever the tables beyond are.
\<close>

lemma sharp_s_lookup_misses:
  "toUpperCase uc [0xDF] = str ''SS''"
  "toLowerCase uc [0xDF] = [0xDF]"
  "toLowerCase uc (str ''SS'') = str ''ss''"
  "CommandRecordRegistry_get uc
     (CommandRecordRegistry_register uc
        (CommandRecordRegistry_register uc [] (counting_command [0xDF]))
        (counting_command [0xDF]))
     (toUpperCase uc (name (counting_command [0xDF]))) = None"
  by (simp_all add: get_register get_empty counting_command_def toLowerCase_def latin1_def
      toUpperCase_def lower_unit_def upper_units_def str_def)

theorem registry_uppercase_lookup_counterexample:
  "toLowerCase unicode0 (name (counting_command [0xDF])) =
     toLowerCase unicode0 (name (counting_command [0xDF])) \<and>
   toUpperCase unicode0 (name (counting_command [0xDF])) = str ''SS'' \<and>
   CommandRecordRegistry_get unicode0
     (CommandRecordRegistry_register unicode0
        (CommandRecordRegistry_register unicode0 [] (counting_command [0xDF]))
        (counting_command [0xDF]))
     (toUpperCase unicode0 (name (counting_command [0xDF]))) = None"
  using sharp_s_lookup_misses[of unicode0] by (simp add: counting_command_def)

section \<open>The dispatcher: validation, unknown commands, execution time\<close>

text \<open>
  C1. For a registered command whose \<^verbatim>\<open>validate(context)\<close> returns an invalid outcome,
  \<^verbatim>\<open>executeCommand(name, context)\<close> returns a result with \<open>success = False\<close>, the
  error \<^verbatim>\<open>Validation failed\<close> and as message the validation errors joined by \<^verbatim>\<open>"; "\<close>.
  The command's \<^verbatim>\<open>execute\<close> is not invoked: the environment is left as \<^verbatim>\<open>validate\<close> left
  it, but for two readings of the clock, and the outcome is the same whatever the body
  of \<^verbatim>\<open>execute\<close> is.
\<close>

theorem executeCommand_validation_short_circuits:
  assumes reg: "CommandRecordRegistry_get uc (commandRegistry engine) commandName = Some command"
      and val: "validate command context (snd (Date_now e)) = (Inr v, e1)"
      and inv: "\<not> valid v"
  shows "StandardCLIEngine_executeCommand uc engine commandName context e =
           (\<lparr>success = False, data = None, error = Some (str ''Validation failed''),
             message = Some (join (str ''; '') (errors v)),
             timestamp = clock e1 (reads e1),
             executionTimeMs = clock e1 (Suc (reads e1)) - clock e (reads e)\<rparr>,
            e1\<lparr>reads := Suc (Suc (reads e1))\<rparr>)
       \<and> (\<forall>engine1 f.
            CommandRecordRegistry_get uc (commandRegistry engine1) commandName
              = Some (command\<lparr>execute := f\<rparr>) \<longrightarrow>
            StandardCLIEngine_executeCommand uc engine1 commandName context e =
              StandardCLIEngine_executeCommand uc engine commandName context e)"
proof -
  have main: "StandardCLIEngine_executeCommand uc eng commandName context e =
           (\<lparr>success = False, data = None, error = Some (str ''Validation failed''),
             message = Some (join (str ''; '') (errors v)),
             timestamp = clock e1 (reads e1),
             executionTimeMs = clock e1 (Suc (reads e1)) - clock e (reads e)\<rparr>,
            e1\<lparr>reads := Suc (Suc (reads e1))\<rparr>)"
    if "CommandRecordRegistry_get uc (commandRegistry eng) commandName = Some cmd"
      and "validate cmd context (snd (Date_now e)) = (Inr v, e1)" for eng cmd
    using that inv
    by (simp add: StandardCLIEngine_executeCommand_def executeCommand_try_def Date_now_def)
  show ?thesis
    using main[OF reg val] main val by simp
qed

lemma engine0_get_strict:
  "CommandRecordRegistry_get unicode0 (commandRegistry engine0) (str ''STRICT'')
     = Some (rejecting_command (str ''strict''))"
  by (simp add: engine0_def get_register get_empty rejecting_command_def counting_command_def
      toLowerCase_def latin1_def lower_unit_def str_def)


theorem executeCommand_validation_short_circuits_witness:
  "CommandRecordRegistry_get unicode0 (commandRegistry engine0) (str ''STRICT'')
     = Some (rejecting_command (str ''strict''))
   \<and> fst (StandardCLIEngine_executeCommand unicode0 engine0 (str ''STRICT'') context0 env0) =
       \<lparr>success = False, data = None, error = Some (str ''Validation failed''),
        message = Some (str ''bad input; worse''), timestamp = 1005, executionTimeMs = 10\<rparr>
   \<and> user (snd (StandardCLIEngine_executeCommand unicode0 engine0 (str ''STRICT'') context0 env0)) = 0
   \<and> console (snd (StandardCLIEngine_executeCommand unicode0 engine0 (str ''STRICT'') context0 env0)) = []"
proof -
  have val: "validate (rejecting_command (str ''strict'')) context0 (snd (Date_now env0)) =
      (Inr \<lparr>valid = False, errors = [str ''bad input'', str ''worse'']\<rparr>, snd (Date_now env0))"
    by (simp add: rejecting_command_def)
  have inv: "\<not> valid \<lparr>valid = False, errors = [str ''bad input'', str ''worse'']\<rparr>"
    by simp
  show ?thesis
    using executeCommand_validation_short_circuits [OF engine0_get_strict val inv]
      engine0_get_strict
    by (simp add: Date_now_def env0_def str_def)
qed

text \<open>
  C3. \<^verbatim>\<open>executeCommand\<close> with a name for which no command is registered, and \<^verbatim>\<open>execute\<close>
  with tokens that parse to no positional argument, both return a result (the model's
  functions return in every case: what the \<^verbatim>\<open>try\<close> block throws is turned into a result by
  the \<^verbatim>\<open>catch\<close> block) with \<open>success = False\<close> and a non-empty error that names the
  condition.
\<close>

theorem unknown_command_gives_failure_result:
  "(CommandRecordRegistry_get uc (commandRegistry engine) commandName = None \<longrightarrow>
      success (fst (StandardCLIEngine_executeCommand uc engine commandName context e)) = False \<and>
      error (fst (StandardCLIEngine_executeCommand uc engine commandName context e)) =
        Some (str ''Command not found: '' @ [39] @ commandName @ [39]) \<and>
      error (fst (StandardCLIEngine_executeCommand uc engine commandName context e)) \<noteq> Some [])
   \<and> (arguments (parseArguments args) = [] \<longrightarrow>
      success (fst (StandardCLIEngine_execute uc engine args e)) = False \<and>
      error (fst (StandardCLIEngine_execute uc engine args e)) =
        Some (str ''Command not found: '' @ [39] @ str ''No command specified'' @ [39]) \<and>
      error (fst (StandardCLIEngine_execute uc engine args e)) \<noteq> Some [])"
  by (simp add: StandardCLIEngine_executeCommand_def executeCommand_try_def
      StandardCLIEngine_execute_def execute_try_def CLIErrorHandler_handle_def
      CommandNotFoundError_def Date_now_def str_def split: prod.splits)

theorem unknown_command_gives_failure_result_witness:
  "CommandRecordRegistry_get unicode0 (commandRegistry engine0) (str ''doesnotexist'') = None
   \<and> success (fst (StandardCLIEngine_executeCommand unicode0 engine0 (str ''doesnotexist'') context0 env0))
       = False
   \<and> error (fst (StandardCLIEngine_executeCommand unicode0 engine0 (str ''doesnotexist'') context0 env0))
       = Some (str ''Command not found: '' @ [39] @ str ''doesnotexist'' @ [39])
   \<and> arguments (parseArguments [str ''--verbose'', str ''-j'']) = []
   \<and> success (fst (StandardCLIEngine_execute unicode0 engine0 [str ''--verbose'', str ''-j''] env0)) = False
   \<and> error (fst (StandardCLIEngine_execute unicode0 engine0 [str ''--verbose'', str ''-j''] env0))
       = Some (str ''Command not found: '' @ [39] @ str ''No command specified'' @ [39])"
proof -
  have none: "CommandRecordRegistry_get unicode0 (commandRegistry engine0) (str ''doesnotexist'') = None"
    by (simp add: engine0_def get_register get_empty rejecting_command_def counting_command_def
        toLowerCase_def latin1_def lower_unit_def str_def)
  have args: "arguments (parseArguments [str ''--verbose'', str ''-j'']) = []"
    by (simp add: parseArguments_def parse_token_def long_key_def long_value_def long_parts_def
        substring_def startsWith_def split_units_def short_flag_def str_def)
  show ?thesis
    using unknown_command_gives_failure_result
      [of unicode0 engine0 "str ''doesnotexist''" context0 env0
          "[str ''--verbose'', str ''-j'']"]
      none args
    by simp
qed


lemma store_Date_now: "store (snd (Date_now e)) = store e"
  by (simp add: Date_now_def)









section \<open>The event emitter: delivery\<close>

lemma map_of_on:
  "map_of (CLIEventEmitter_on listeners event cb) ev =
     (if ev = event
      then Some (Set_add (case map_of listeners event of None \<Rightarrow> [] | Some cbs \<Rightarrow> cbs) cb)
      else map_of listeners ev)"
  by (auto simp add: CLIEventEmitter_on_def update_conv' Let_def split: option.splits)

lemma map_of_off:
  "map_of (CLIEventEmitter_off listeners event cb) ev =
     (if ev = event
      then (case map_of listeners event of None \<Rightarrow> None | Some cbs \<Rightarrow> Some (Set_delete cbs cb))
      else map_of listeners ev)"
  by (auto simp add: CLIEventEmitter_off_def update_conv' split: option.splits)

lemma Set_add_twice: "Set_add (Set_add cbs cb) cb = Set_add cbs cb"
  by (simp add: Set_add_def Set_has_def)

lemma on_twice:
  "CLIEventEmitter_on (CLIEventEmitter_on listeners event cb) event cb =
     CLIEventEmitter_on listeners event cb"
proof -
  let ?l1 = "CLIEventEmitter_on listeners event cb"
  obtain cbs where cbs: "map_of ?l1 event = Some (Set_add cbs cb)"
    by (simp add: map_of_on)
  have "CLIEventEmitter_on ?l1 event cb = AList.update event (Set_add (Set_add cbs cb) cb) ?l1"
    using cbs by (simp add: CLIEventEmitter_on_def[of ?l1])
  also have "\<dots> = ?l1"
    using cbs by (simp add: Set_add_twice update_triv)
  finally show ?thesis .
qed

lemma Set_delete_add_fresh:
  "\<not> Set_has cbs cb \<Longrightarrow> Set_delete (Set_add cbs cb) cb = cbs"
proof -
  assume fresh: "\<not> Set_has cbs cb"
  then have "\<forall>l \<in> set cbs. lid l \<noteq> lid cb"
    by (auto simp add: Set_has_def image_iff)
  then have "filter (\<lambda>l. lid l \<noteq> lid cb) cbs = cbs"
    by (simp add: filter_id_conv)
  then show ?thesis
    using fresh by (simp add: Set_add_def Set_delete_def)
qed

lemma emit_eq:
  "CLIEventEmitter_emit listeners event d e =
     foldl (invoke_listener event d) e
       (case map_of listeners event of None \<Rightarrow> [] | Some cbs \<Rightarrow> cbs)"
  by (simp add: CLIEventEmitter_emit_def split: option.splits)

lemma foldl_Set_add_fresh:
  "distinct (map lid (base @ cbs)) \<Longrightarrow> foldl Set_add base cbs = base @ cbs"
proof (induction cbs arbitrary: base)
  case Nil
  then show ?case by simp
next
  case (Cons cb cbs)
  have "Set_add base cb = base @ [cb]"
    using Cons.prems by (auto simp add: Set_add_def Set_has_def)
  moreover have "distinct (map lid ((base @ [cb]) @ cbs))"
    using Cons.prems by simp
  ultimately show ?case
    using Cons.IH[of "base @ [cb]"] by simp
qed

lemma map_of_foldl_on:
  "map_of (foldl (\<lambda>l cb. CLIEventEmitter_on l event cb) listeners cbs) event =
     (if cbs = [] then map_of listeners event
      else Some (foldl Set_add (registered_callbacks listeners event) cbs))"
proof (induction cbs arbitrary: listeners)
  case Nil
  then show ?case by simp
next
  case (Cons cb cbs)
  show ?case
    by (simp add: Cons.IH map_of_on registered_callbacks_def)
qed

text \<open>
  C6. When the first of the two listeners registered for an event throws, \<^verbatim>\<open>emit\<close> writes
  the failure to the console and then invokes the second listener, once, and returns.
  This holds for a listener table that holds the two listeners for the event, and for
  the table after \<^verbatim>\<open>on\<close> registered the first and then the second. Delivery visits the
  registered callbacks in registration order: after \<^verbatim>\<open>on\<close> for each of a list of distinct
  listeners, \<^verbatim>\<open>emit\<close> runs them from the first to the last, each inside its own
  \<^verbatim>\<open>try\<close>.
\<close>

theorem emit_isolates_throwing_listener:
  assumes thr: "callback first d e = (Inl err, e1)"
  shows "(map_of listeners event = Some [first, second] \<longrightarrow>
            CLIEventEmitter_emit listeners event d e =
              invoke_listener event d (e1\<lparr>console := console e1 @ [ListenerFailure event err]\<rparr>)
                second)
       \<and> (map_of listeners event = None \<and> lid first \<noteq> lid second \<longrightarrow>
            CLIEventEmitter_emit
              (CLIEventEmitter_on (CLIEventEmitter_on listeners event first) event second)
              event d e =
              invoke_listener event d (e1\<lparr>console := console e1 @ [ListenerFailure event err]\<rparr>)
                second)
       \<and> (\<forall>cbs :: 'u listener list.
            map_of listeners event = None \<and> distinct (map lid cbs) \<longrightarrow>
            CLIEventEmitter_emit
              (foldl (\<lambda>l cb. CLIEventEmitter_on l event cb) listeners cbs) event d e =
              foldl (invoke_listener event d) e cbs)"
proof (intro conjI allI impI)
  assume "map_of listeners event = Some [first, second]"
  then show "CLIEventEmitter_emit listeners event d e =
      invoke_listener event d (e1\<lparr>console := console e1 @ [ListenerFailure event err]\<rparr>) second"
    using thr by (simp add: CLIEventEmitter_emit_def invoke_listener_def[of event d e first])
next
  assume a: "map_of listeners event = None \<and> lid first \<noteq> lid second"
  then have "map_of (CLIEventEmitter_on (CLIEventEmitter_on listeners event first) event second)
      event = Some [first, second]"
    by (simp add: map_of_on Set_add_def Set_has_def)
  then show "CLIEventEmitter_emit
      (CLIEventEmitter_on (CLIEventEmitter_on listeners event first) event second) event d e =
      invoke_listener event d (e1\<lparr>console := console e1 @ [ListenerFailure event err]\<rparr>) second"
    using thr by (simp add: CLIEventEmitter_emit_def invoke_listener_def[of event d e first])
next
  fix cbs :: "'u listener list"
  assume a: "map_of listeners event = None \<and> distinct (map lid cbs)"
  then have "foldl Set_add (registered_callbacks listeners event) cbs = cbs"
    using foldl_Set_add_fresh[of "[]" cbs] by (simp add: registered_callbacks_def)
  then show "CLIEventEmitter_emit
      (foldl (\<lambda>l cb. CLIEventEmitter_on l event cb) listeners cbs) event d e =
      foldl (invoke_listener event d) e cbs"
    using a by (cases "cbs = []") (simp_all add: emit_eq map_of_foldl_on)
qed

theorem emit_isolates_throwing_listener_witness:
  "callback throwing_listener (OtherData None) env0 =
     (Inl (JsError (str ''Error'') (str ''boom'')), env0)
   \<and> lid throwing_listener \<noteq> lid counting_listener
   \<and> user (CLIEventEmitter_emit
        (CLIEventEmitter_on (CLIEventEmitter_on [] (str ''tick'') throwing_listener)
           (str ''tick'') counting_listener)
        (str ''tick'') (OtherData None) env0) = 1
   \<and> console (CLIEventEmitter_emit
        (CLIEventEmitter_on (CLIEventEmitter_on [] (str ''tick'') throwing_listener)
           (str ''tick'') counting_listener)
        (str ''tick'') (OtherData None) env0) =
       [ListenerFailure (str ''tick'') (JsError (str ''Error'') (str ''boom''))]"
proof -
  have thr: "callback throwing_listener (OtherData None) env0 =
     (Inl (JsError (str ''Error'') (str ''boom'')), env0)"
    by (simp add: throwing_listener_def)
  have ids: "lid throwing_listener \<noteq> lid counting_listener"
    by (simp add: throwing_listener_def counting_listener_def)
  have fresh: "map_of ([] :: nat CLIEventEmitter) (str ''tick'') = None"
    by simp
  show ?thesis
    using emit_isolates_throwing_listener [OF thr, of "[]" "str ''tick''" counting_listener]
      thr ids fresh
    by (simp add: invoke_listener_def counting_listener_def env0_def)
qed

text \<open>
  C10. Registering the same callback twice for the same event is idempotent: the second
  \<^verbatim>\<open>on\<close> leaves the listener table as the first one made it, so \<^verbatim>\<open>emit\<close> does the same after
  two registrations as after one; when the callback was not registered before, \<^verbatim>\<open>emit\<close>
  runs the earlier listeners and then the callback once, and after a single \<^verbatim>\<open>off\<close> it
  runs the earlier listeners only. After \<^verbatim>\<open>off\<close> the callback is not in the set.
\<close>

theorem on_same_callback_twice_is_idempotent:
  "CLIEventEmitter_on (CLIEventEmitter_on listeners event cb) event cb =
     CLIEventEmitter_on listeners event cb
   \<and> CLIEventEmitter_emit (CLIEventEmitter_on (CLIEventEmitter_on listeners event cb) event cb)
       event d e =
     CLIEventEmitter_emit (CLIEventEmitter_on listeners event cb) event d e
   \<and> (\<not> Set_has (registered_callbacks listeners event) cb \<longrightarrow>
        CLIEventEmitter_emit (CLIEventEmitter_on (CLIEventEmitter_on listeners event cb) event cb)
          event d e =
        invoke_listener event d (CLIEventEmitter_emit listeners event d e) cb
      \<and> CLIEventEmitter_emit
          (CLIEventEmitter_off
             (CLIEventEmitter_on (CLIEventEmitter_on listeners event cb) event cb) event cb)
          event d e =
        CLIEventEmitter_emit listeners event d e)
   \<and> \<not> Set_has
         (registered_callbacks
            (CLIEventEmitter_off
               (CLIEventEmitter_on (CLIEventEmitter_on listeners event cb) event cb) event cb)
            event) cb"
proof -
  have once: "CLIEventEmitter_emit (CLIEventEmitter_on listeners event cb) event d e =
      invoke_listener event d (CLIEventEmitter_emit listeners event d e) cb"
    if "\<not> Set_has (registered_callbacks listeners event) cb"
    using that by (simp add: emit_eq map_of_on Set_add_def registered_callbacks_def)
  have removed: "CLIEventEmitter_emit
      (CLIEventEmitter_off (CLIEventEmitter_on listeners event cb) event cb) event d e =
      CLIEventEmitter_emit listeners event d e"
    if "\<not> Set_has (registered_callbacks listeners event) cb"
    using that Set_delete_add_fresh[of "registered_callbacks listeners event" cb]
    by (simp add: emit_eq map_of_on map_of_off registered_callbacks_def)
  have gone: "\<not> Set_has
      (registered_callbacks (CLIEventEmitter_off (CLIEventEmitter_on listeners event cb) event cb)
         event) cb"
    by (auto simp add: registered_callbacks_def map_of_on map_of_off Set_has_def Set_delete_def)
  show ?thesis
    using once removed gone by (simp add: on_twice)
qed

theorem on_same_callback_twice_is_idempotent_witness:
  "\<not> Set_has (registered_callbacks ([] :: nat CLIEventEmitter) (str ''tick'')) counting_listener
   \<and> registered_callbacks
       (CLIEventEmitter_on (CLIEventEmitter_on [] (str ''tick'') counting_listener)
          (str ''tick'') counting_listener) (str ''tick'') = [counting_listener]
   \<and> user (CLIEventEmitter_emit
        (CLIEventEmitter_on (CLIEventEmitter_on [] (str ''tick'') counting_listener)
           (str ''tick'') counting_listener)
        (str ''tick'') (OtherData None) env0) = 1
   \<and> user (CLIEventEmitter_emit
        (CLIEventEmitter_off
           (CLIEventEmitter_on (CLIEventEmitter_on [] (str ''tick'') counting_listener)
              (str ''tick'') counting_listener)
           (str ''tick'') counting_listener)
        (str ''tick'') (OtherData None) env0) = 0"
proof -
  have fresh: "\<not> Set_has (registered_callbacks ([] :: nat CLIEventEmitter) (str ''tick''))
      counting_listener"
    by (simp add: registered_callbacks_def Set_has_def)
  have empty: "CLIEventEmitter_emit ([] :: nat CLIEventEmitter) (str ''tick'') (OtherData None)
      env0 = env0"
    by (simp add: CLIEventEmitter_emit_def)
  note T = on_same_callback_twice_is_idempotent
      [of "[]" "str ''tick''" counting_listener "OtherData None" env0]
  have idem: "CLIEventEmitter_on (CLIEventEmitter_on [] (str ''tick'') counting_listener)
      (str ''tick'') counting_listener = CLIEventEmitter_on [] (str ''tick'') counting_listener"
    using T by blast
  have once: "CLIEventEmitter_emit
      (CLIEventEmitter_on (CLIEventEmitter_on [] (str ''tick'') counting_listener)
         (str ''tick'') counting_listener) (str ''tick'') (OtherData None) env0 =
      invoke_listener (str ''tick'') (OtherData None)
        (CLIEventEmitter_emit [] (str ''tick'') (OtherData None) env0) counting_listener"
    using T fresh by blast
  have removed: "CLIEventEmitter_emit
      (CLIEventEmitter_off
         (CLIEventEmitter_on (CLIEventEmitter_on [] (str ''tick'') counting_listener)
            (str ''tick'') counting_listener) (str ''tick'') counting_listener)
      (str ''tick'') (OtherData None) env0 =
      CLIEventEmitter_emit [] (str ''tick'') (OtherData None) env0"
    using T fresh by blast
  have reg: "registered_callbacks
      (CLIEventEmitter_on (CLIEventEmitter_on [] (str ''tick'') counting_listener)
         (str ''tick'') counting_listener) (str ''tick'') = [counting_listener]"
    unfolding idem by (simp add: registered_callbacks_def map_of_on Set_add_def Set_has_def)
  have u1: "user (invoke_listener (str ''tick'') (OtherData None) env0 counting_listener) = 1"
    by (simp add: invoke_listener_def counting_listener_def env0_def)
  have u0: "user env0 = 0"
    by (simp add: env0_def)
  show ?thesis
    unfolding once removed reg empty using fresh u1 u0 by simp
qed

section \<open>The plugin manager: loading\<close>

lemma isPluginLoaded_update:
  "PluginManager_isPluginLoaded (AList.update pname plugin loadedPlugins) pname"
proof -
  have "pname \<in> dom (map_of (AList.update pname plugin loadedPlugins))"
    by (simp add: update_conv')
  then show ?thesis
    by (simp add: PluginManager_isPluginLoaded_def dom_map_of_conv_image_fst)
qed

lemma logger_call_logger:
  "logger_call (Instance Logger_object) method_name method msg d e = (Inr (), method msg d e)"
  by (simp add: logger_call_def)

text \<open>
  C7, as amended. When \<^verbatim>\<open>container.get('logger')\<close> returns the logger: if \<^verbatim>\<open>initialize\<close>
  throws, \<^verbatim>\<open>loadPlugin(name, plugin)\<close> throws the same error, runs no listener of
  \<^verbatim>\<open>plugin:loaded\<close> (the environment is the one \<^verbatim>\<open>initialize\<close> left, with the logger's line
  added) and leaves \<^verbatim>\<open>loadedPlugins\<close> as it was, so that \<^verbatim>\<open>isPluginLoaded(name)\<close> is what it
  was before the call: false when nothing was loaded under the name. If \<^verbatim>\<open>initialize\<close>
  returns, the plugin is recorded under the name and \<^verbatim>\<open>plugin:loaded\<close> is emitted.
\<close>

theorem loadPlugin_records_only_on_success:
  assumes logger: "DIContainer_get (sys_container s) (str ''logger'') = (Inr (Instance Logger_object), c)"
  shows "(\<forall>err s2.
            initialize plugin
              (s\<lparr>sys_container := c,
                 sys_env := CLILogger_info (str ''Loading plugin: '' @ pname) NoData (sys_env s)\<rparr>)
              = (Inl err, s2) \<longrightarrow>
            PluginManager_loadPlugin loadedPlugins pname plugin s =
              (Inl err, loadedPlugins,
               s2\<lparr>sys_env := CLILogger_error (str ''Failed to load plugin '' @ pname)
                                 (ErrorData err) (sys_env s2)\<rparr>)
            \<and> PluginManager_isPluginLoaded
                (fst (snd (PluginManager_loadPlugin loadedPlugins pname plugin s))) pname =
              PluginManager_isPluginLoaded loadedPlugins pname
            \<and> (\<not> PluginManager_isPluginLoaded loadedPlugins pname \<longrightarrow>
                \<not> PluginManager_isPluginLoaded
                    (fst (snd (PluginManager_loadPlugin loadedPlugins pname plugin s))) pname))
       \<and> (\<forall>s2.
            initialize plugin
              (s\<lparr>sys_container := c,
                 sys_env := CLILogger_info (str ''Loading plugin: '' @ pname) NoData (sys_env s)\<rparr>)
              = (Inr (), s2) \<longrightarrow>
            PluginManager_loadPlugin loadedPlugins pname plugin s =
              (Inr (), AList.update pname plugin loadedPlugins,
               s2\<lparr>sys_env :=
                    CLIEventEmitter_emit (sys_emitter s2) (str ''plugin:loaded'') (PluginEvent pname)
                      (CLILogger_info (str ''Plugin loaded: '' @ pname) NoData (sys_env s2))\<rparr>)
            \<and> map_of (fst (snd (PluginManager_loadPlugin loadedPlugins pname plugin s))) pname =
              Some plugin
            \<and> PluginManager_isPluginLoaded
                (fst (snd (PluginManager_loadPlugin loadedPlugins pname plugin s))) pname)"
  using logger
  by (auto simp add: PluginManager_loadPlugin_def loadPlugin_try_def logger_call_logger Let_def
      isPluginLoaded_update update_conv')

lemma sys0_logger:
  "DIContainer_get (sys_container sys0) (str ''logger'')
     = (Inr (Instance Logger_object), sys_container sys0)"
  by (simp add: sys0_def DIContainer_get_def DIContainer_registerSingleton_def)

theorem loadPlugin_records_only_on_success_witness:
  "DIContainer_get (sys_container sys0) (str ''logger'')
     = (Inr (Instance Logger_object), sys_container sys0)
   \<and> fst (PluginManager_loadPlugin [] (str ''images'') failing_plugin sys0) =
       Inl (JsError (str ''ConfigError'') (str ''missing API key''))
   \<and> \<not> PluginManager_isPluginLoaded
         (fst (snd (PluginManager_loadPlugin [] (str ''images'') failing_plugin sys0)))
         (str ''images'')
   \<and> user (sys_env (snd (snd (PluginManager_loadPlugin [] (str ''images'') failing_plugin sys0))))
       = 0
   \<and> fst (PluginManager_loadPlugin [] (str ''images'') good_plugin sys0) = Inr ()
   \<and> PluginManager_isPluginLoaded
       (fst (snd (PluginManager_loadPlugin [] (str ''images'') good_plugin sys0))) (str ''images'')
   \<and> user (sys_env (snd (snd (PluginManager_loadPlugin [] (str ''images'') good_plugin sys0))))
       = 1"
proof -
  let ?s1 = "sys0\<lparr>sys_container := sys_container sys0,
                  sys_env := CLILogger_info (str ''Loading plugin: '' @ str ''images'') NoData
                               (sys_env sys0)\<rparr>"
  note T = loadPlugin_records_only_on_success
      [OF sys0_logger, of _ "str ''images''" "[]"]
  have bad: "initialize failing_plugin ?s1 =
      (Inl (JsError (str ''ConfigError'') (str ''missing API key'')), ?s1)"
    by (simp add: failing_plugin_def)
  have good: "initialize good_plugin ?s1 =
      (Inr (), ?s1\<lparr>sys_registry := CommandRecordRegistry_register unicode0 (sys_registry ?s1)
                                        (counting_command (str ''greet''))\<rparr>)"
    by (simp add: good_plugin_def)
  have fresh: "\<not> PluginManager_isPluginLoaded ([] :: nat PluginManager) (str ''images'')"
    by (simp add: PluginManager_isPluginLoaded_def)
  have b1: "PluginManager_loadPlugin [] (str ''images'') failing_plugin sys0 =
      (Inl (JsError (str ''ConfigError'') (str ''missing API key'')), [],
       ?s1\<lparr>sys_env := CLILogger_error (str ''Failed to load plugin '' @ str ''images'')
          (ErrorData (JsError (str ''ConfigError'') (str ''missing API key''))) (sys_env ?s1)\<rparr>)"
    using T[of failing_plugin] bad by blast
  have b2: "\<not> PluginManager_isPluginLoaded
         (fst (snd (PluginManager_loadPlugin [] (str ''images'') failing_plugin sys0)))
         (str ''images'')"
    using T[of failing_plugin] bad fresh by blast
  have g1: "PluginManager_loadPlugin [] (str ''images'') good_plugin sys0 =
      (Inr (), AList.update (str ''images'') good_plugin [],
       (?s1\<lparr>sys_registry := CommandRecordRegistry_register unicode0 (sys_registry ?s1)
                                        (counting_command (str ''greet''))\<rparr>)
        \<lparr>sys_env :=
           CLIEventEmitter_emit
             (sys_emitter (?s1\<lparr>sys_registry :=
                                 CommandRecordRegistry_register unicode0 (sys_registry ?s1)
                                        (counting_command (str ''greet''))\<rparr>))
             (str ''plugin:loaded'') (PluginEvent (str ''images''))
             (CLILogger_info (str ''Plugin loaded: '' @ str ''images'') NoData
                (sys_env (?s1\<lparr>sys_registry :=
                                 CommandRecordRegistry_register unicode0 (sys_registry ?s1)
                                        (counting_command (str ''greet''))\<rparr>)))\<rparr>)"
    using T[of good_plugin] good by blast
  have g2: "PluginManager_isPluginLoaded
       (fst (snd (PluginManager_loadPlugin [] (str ''images'') good_plugin sys0))) (str ''images'')"
    using T[of good_plugin] good by blast
  have u0: "user (sys_env (snd (snd (PluginManager_loadPlugin [] (str ''images'') failing_plugin
      sys0)))) = 0"
    unfolding b1
    by (simp add: sys0_def env0_def CLILogger_error_def CLILogger_info_def log_line_def Date_now_def)
  have u1: "user (sys_env (snd (snd (PluginManager_loadPlugin [] (str ''images'') good_plugin
      sys0)))) = 1"
    unfolding g1
    by (simp add: sys0_def env0_def CLILogger_info_def log_line_def Date_now_def
        CLIEventEmitter_emit_def map_of_on Set_add_def Set_has_def invoke_listener_def
        counting_listener_def)
  show ?thesis
    using sys0_logger b1 b2 g1 g2 u0 u1 by simp
qed

text \<open>
  The claim of C7 as it is stated fails in two ways. After a failed load
  \<^verbatim>\<open>isPluginLoaded(name)\<close> is not false when a plugin was loaded under the name before:
  the failed load of a second plugin under that name leaves the first one recorded.
  And \<^verbatim>\<open>loadPlugin\<close> does not throw the error of \<^verbatim>\<open>initialize\<close> when what the container
  returns for \<^verbatim>\<open>logger\<close> is not the logger: with the logger registered as a factory and
  fetched once before, \<^verbatim>\<open>get\<close> returns the factory function, \<^verbatim>\<open>logger.info\<close> throws a
  \<^verbatim>\<open>TypeError\<close> before \<^verbatim>\<open>initialize\<close> is called, and the \<^verbatim>\<open>TypeError\<close> of \<^verbatim>\<open>logger.error\<close> in
  the \<^verbatim>\<open>catch\<close> block is what \<^verbatim>\<open>loadPlugin\<close> throws.
\<close>

lemma loaded_once_eval:
  "fst loaded_once = Inr ()"
  "fst (snd loaded_once) = [(str ''images'', good_plugin)]"
  "sys_container (snd (snd loaded_once)) = sys_container sys0"
  by (simp_all add: loaded_once_def PluginManager_loadPlugin_def loadPlugin_try_def sys0_logger
      logger_call_logger Let_def good_plugin_def)

lemma sys_factory_logger:
  "DIContainer_get (sys_container sys_factory) (str ''logger'')
     = (Inr (Factory Logger_object), sys_container sys_factory)"
  by (simp add: sys_factory_def DIContainer_get_def DIContainer_registerFactory_def)

theorem loadPlugin_failure_keeps_earlier_plugin_counterexample:
  "fst loaded_once = Inr ()
   \<and> fst (PluginManager_loadPlugin (fst (snd loaded_once)) (str ''images'') failing_plugin
          (snd (snd loaded_once)))
       = Inl (JsError (str ''ConfigError'') (str ''missing API key''))
   \<and> PluginManager_isPluginLoaded
       (fst (snd (PluginManager_loadPlugin (fst (snd loaded_once)) (str ''images'') failing_plugin
          (snd (snd loaded_once)))))
       (str ''images'')
   \<and> fst (initialize failing_plugin sys_factory)
       = Inl (JsError (str ''ConfigError'') (str ''missing API key''))
   \<and> fst (PluginManager_loadPlugin [] (str ''images'') failing_plugin sys_factory)
       = Inl (JsError (str ''TypeError'') (str ''logger.error is not a function''))"
proof -
  have failing: "fst (PluginManager_loadPlugin loadedPlugins pname failing_plugin s) =
        Inl (JsError (str ''ConfigError'') (str ''missing API key''))
      \<and> fst (snd (PluginManager_loadPlugin loadedPlugins pname failing_plugin s)) = loadedPlugins"
    if "DIContainer_get (sys_container s) (str ''logger'') = (Inr (Instance Logger_object), c)"
    for loadedPlugins :: "nat PluginManager" and pname s c
    using that
    by (simp add: PluginManager_loadPlugin_def loadPlugin_try_def logger_call_logger Let_def
        failing_plugin_def)
  have lg: "DIContainer_get (sys_container (snd (snd loaded_once))) (str ''logger'') =
      (Inr (Instance Logger_object), sys_container sys0)"
    using sys0_logger by (simp add: loaded_once_eval)
  have loaded: "PluginManager_isPluginLoaded [(str ''images'', good_plugin)] (str ''images'')"
    by (simp add: PluginManager_isPluginLoaded_def)
  have init: "fst (initialize failing_plugin sys_factory)
       = Inl (JsError (str ''ConfigError'') (str ''missing API key''))"
    by (simp add: failing_plugin_def)
  have factory: "fst (PluginManager_loadPlugin [] (str ''images'') failing_plugin sys_factory)
       = Inl (JsError (str ''TypeError'') (str ''logger.error is not a function''))"
  proof -
    have "fst (PluginManager_loadPlugin [] (str ''images'') failing_plugin sys_factory)
       = Inl (JsError (str ''TypeError'')
                (str ''logger.'' @ str ''error'' @ str '' is not a function''))"
      by (simp add: PluginManager_loadPlugin_def loadPlugin_try_def sys_factory_logger
          logger_call_def)
    then show ?thesis by (simp add: str_def)
  qed
  show ?thesis
    using failing[OF lg, of "fst (snd loaded_once)" "str ''images''"] loaded init factory
    by (simp add: loaded_once_eval)
qed

section \<open>The agent adapter: the tool set\<close>

lemma registry_ok_empty: "registry_ok uc []"
  by (simp add: registry_ok_def)

lemma list_all_update:
  "list_all P al \<Longrightarrow> P (k, v) \<Longrightarrow> list_all P (AList.update k v al)"
  by (induction al) auto

lemma registry_ok_register:
  "registry_ok uc r \<Longrightarrow> registry_ok uc (CommandRecordRegistry_register uc r c)"
  by (simp add: registry_ok_def CommandRecordRegistry_register_def distinct_update list_all_update)

lemma registry_ok_unregister:
  "registry_ok uc r \<Longrightarrow> registry_ok uc (CommandRecordRegistry_unregister uc r n)"
proof -
  assume ok: "registry_ok uc r"
  have "distinct (map fst (AList.delete (toLowerCase uc n) r))"
    using ok by (simp add: registry_ok_def distinct_delete)
  moreover have "list_all (\<lambda>(key, command). key = toLowerCase uc (name command))
      (AList.delete (toLowerCase uc n) r)"
    using ok by (auto simp add: registry_ok_def AList.delete_eq list_all_iff)
  ultimately show ?thesis
    by (simp add: registry_ok_def CommandRecordRegistry_unregister_def)
qed

lemma distinct_map_inner: "distinct (map (\<lambda>x. f (g x)) xs) \<Longrightarrow> distinct (map g xs)"
  by (induction xs) auto

lemma registry_ok_distinct_names:
  assumes "registry_ok uc r"
  shows "distinct (map name (CommandRecordRegistry_getAll r))"
proof -
  have keys: "map fst r = map (\<lambda>p. toLowerCase uc (name (snd p))) r"
    using assms by (auto simp add: registry_ok_def list_all_iff)
  have "distinct (map (\<lambda>p. toLowerCase uc (name (snd p))) r)"
    using assms keys by (simp add: registry_ok_def)
  then have "distinct (map (\<lambda>p. name (snd p)) r)"
    by (rule distinct_map_inner)
  then show ?thesis
    by (simp add: CommandRecordRegistry_getAll_def comp_def)
qed

lemma update_fresh_key: "k \<notin> set (map fst al) \<Longrightarrow> AList.update k v al = al @ [(k, v)]"
  by (induction al) auto

lemma buildTools_distinct:
  "distinct (map fst tools @ map name cs) \<Longrightarrow>
   foldl (\<lambda>tools1 command. AList.update (name command) (tool_of_command command) tools1) tools cs
     = tools @ map (\<lambda>c. (name c, tool_of_command c)) cs"
proof (induction cs arbitrary: tools)
  case Nil
  then show ?case by simp
next
  case (Cons c cs)
  have fresh: "name c \<notin> set (map fst tools)"
    using Cons.prems by auto
  have "distinct (map fst (tools @ [(name c, tool_of_command c)]) @ map name cs)"
    using Cons.prems by auto
  then show ?case
    using Cons.IH[of "tools @ [(name c, tool_of_command c)]"] fresh
    by (simp add: update_fresh_key)
qed

lemma agent_new_eq:
  assumes "registry_ok uc commands"
  shows "ProgrammaticCLIAgent_new commands =
           map (\<lambda>c. (name c, tool_of_command c)) (CommandRecordRegistry_getAll commands)"
  using buildTools_distinct[of "[]" "CommandRecordRegistry_getAll commands"]
    registry_ok_distinct_names[OF assms]
  by (simp add: ProgrammaticCLIAgent_new_def buildToolsFromCommands_def)

lemma app_agent_foldl_register:
  "app_agent (foldl (app_register uc) a later) = app_agent a"
  by (induction later arbitrary: a) (simp_all add: app_register_def)

lemma map_of_names_None:
  "n \<notin> set (map name cs) \<Longrightarrow> map_of (map (\<lambda>c. (name c, f c)) cs) n = None"
  by (induction cs) auto

text \<open>
  C8, as amended. The tool set of the agent is fixed when the agent is constructed from
  a registry (one that \<^verbatim>\<open>register\<close> and \<^verbatim>\<open>unregister\<close> built). Whatever commands are
  registered afterwards, \<^verbatim>\<open>getTools()\<close> returns exactly one tool per command that was
  registered at construction, in the registry's order, and \<^verbatim>\<open>getTool\<close> returns \<open>None\<close>
  for the name of a later command when no command registered at construction has that
  name; the registry itself does hold the later command.
\<close>

theorem agent_tools_fixed_at_construction:
  assumes ok: "registry_ok uc commands"
  shows "ProgrammaticCLIAgent_getTools (app_agent (foldl (app_register uc) (app_new_agent commands) later))
           = map tool_of_command (CommandRecordRegistry_getAll commands)
       \<and> length (ProgrammaticCLIAgent_getTools
                   (app_agent (foldl (app_register uc) (app_new_agent commands) later)))
           = length (CommandRecordRegistry_getAll commands)
       \<and> (\<forall>command \<in> set later.
            name command \<notin> set (map name (CommandRecordRegistry_getAll commands)) \<longrightarrow>
            ProgrammaticCLIAgent_getTool
              (app_agent (foldl (app_register uc) (app_new_agent commands) later)) (name command) = None)
       \<and> (\<forall>command.
            CommandRecordRegistry_get uc
              (app_registry (app_register uc (app_new_agent commands) command)) (name command)
              = Some command)"
proof -
  have agent: "app_agent (foldl (app_register uc) (app_new_agent commands) later) =
      map (\<lambda>c. (name c, tool_of_command c)) (CommandRecordRegistry_getAll commands)"
    using agent_new_eq[OF ok] by (simp add: app_agent_foldl_register app_new_agent_def)
  have tools: "ProgrammaticCLIAgent_getTools
      (app_agent (foldl (app_register uc) (app_new_agent commands) later))
      = map tool_of_command (CommandRecordRegistry_getAll commands)"
    unfolding agent by (simp add: ProgrammaticCLIAgent_getTools_def comp_def)
  have absent: "ProgrammaticCLIAgent_getTool
      (app_agent (foldl (app_register uc) (app_new_agent commands) later)) (name command) = None"
    if "name command \<notin> set (map name (CommandRecordRegistry_getAll commands))"
    for command :: "'a Command"
    unfolding agent using that
    by (simp add: ProgrammaticCLIAgent_getTool_def map_of_names_None)
  have reg: "CommandRecordRegistry_get uc
      (app_registry (app_register uc (app_new_agent commands) command)) (name command) = Some command"
    for command
    by (simp add: app_register_def get_register)
  show ?thesis
    using tools absent reg by simp
qed

lemma example_names:
  "name (counting_command n) = n"
  "name (rejecting_command n) = n"
  by (simp_all add: counting_command_def rejecting_command_def)

theorem agent_tools_fixed_at_construction_witness:
  "registry_ok unicode0 (commandRegistry engine0)
   \<and> counting_command (str ''greet'') \<in> set [counting_command (str ''greet'')]
   \<and> name (counting_command (str ''greet''))
       \<notin> set (map name (CommandRecordRegistry_getAll (commandRegistry engine0)))
   \<and> ProgrammaticCLIAgent_getTool
       (app_agent (foldl (app_register unicode0) (app_new_agent (commandRegistry engine0))
          [counting_command (str ''greet'')]))
       (name (counting_command (str ''greet''))) = None
   \<and> ProgrammaticCLIAgent_getTools
       (app_agent (foldl (app_register unicode0) (app_new_agent (commandRegistry engine0))
          [counting_command (str ''greet'')]))
       = [tool_of_command (rejecting_command (str ''strict'')),
          tool_of_command (counting_command (str ''count''))]
   \<and> CommandRecordRegistry_get unicode0
       (app_registry (app_register unicode0 (app_new_agent (commandRegistry engine0))
          (counting_command (str ''greet''))))
       (name (counting_command (str ''greet''))) = Some (counting_command (str ''greet''))"
proof -
  have ok: "registry_ok unicode0 (commandRegistry engine0)"
    by (simp add: engine0_def registry_ok_register registry_ok_empty)
  have all: "CommandRecordRegistry_getAll (commandRegistry engine0) =
      [rejecting_command (str ''strict''), counting_command (str ''count'')]"
    by (simp add: engine0_def CommandRecordRegistry_getAll_def CommandRecordRegistry_register_def
        example_names toLowerCase_def latin1_def lower_unit_def str_def)
  have new: "name (counting_command (str ''greet''))
       \<notin> set (map name (CommandRecordRegistry_getAll (commandRegistry engine0)))"
    unfolding all by (simp add: example_names str_def)
  note T = agent_tools_fixed_at_construction [OF ok, of "[counting_command (str ''greet'')]"]
  have t1: "ProgrammaticCLIAgent_getTools
       (app_agent (foldl (app_register unicode0) (app_new_agent (commandRegistry engine0))
          [counting_command (str ''greet'')]))
       = map tool_of_command (CommandRecordRegistry_getAll (commandRegistry engine0))"
    using T by blast
  have t2: "ProgrammaticCLIAgent_getTool
       (app_agent (foldl (app_register unicode0) (app_new_agent (commandRegistry engine0))
          [counting_command (str ''greet'')]))
       (name (counting_command (str ''greet''))) = None"
    using T new by simp
  have t3: "CommandRecordRegistry_get unicode0
       (app_registry (app_register unicode0 (app_new_agent (commandRegistry engine0))
          (counting_command (str ''greet''))))
       (name (counting_command (str ''greet''))) = Some (counting_command (str ''greet''))"
    using T by blast
  show ?thesis
    using ok new t2 t3 unfolding t1 all by simp
qed

text \<open>
  The claim of C8 as it is stated (\<^verbatim>\<open>getTool\<close> of the name of every command registered
  after construction returns the not-found sentinel) fails for a later command that
  takes the name of a command registered at construction: the registry then holds the
  later command, and \<^verbatim>\<open>getTool\<close> still returns the tool built from the earlier one.
\<close>

theorem agent_keeps_tool_of_replaced_command_counterexample:
  "CommandRecordRegistry_get unicode0
     (app_registry
        (app_register unicode0
           (app_new_agent (CommandRecordRegistry_register unicode0 [] (counting_command (str ''echo''))))
           (rejecting_command (str ''echo''))))
     (name (rejecting_command (str ''echo''))) = Some (rejecting_command (str ''echo''))
   \<and> ProgrammaticCLIAgent_getTool
       (app_agent
          (app_register unicode0
             (app_new_agent (CommandRecordRegistry_register unicode0 [] (counting_command (str ''echo''))))
             (rejecting_command (str ''echo''))))
       (name (rejecting_command (str ''echo'')))
     = Some (tool_of_command (counting_command (str ''echo'')))"
proof -
  have registry: "CommandRecordRegistry_get unicode0
     (app_registry
        (app_register unicode0
           (app_new_agent (CommandRecordRegistry_register unicode0 [] (counting_command (str ''echo''))))
           (rejecting_command (str ''echo''))))
     (name (rejecting_command (str ''echo''))) = Some (rejecting_command (str ''echo''))"
    by (simp add: app_register_def get_register)
  have agent: "ProgrammaticCLIAgent_getTool
       (app_agent
          (app_register unicode0
             (app_new_agent (CommandRecordRegistry_register unicode0 [] (counting_command (str ''echo''))))
             (rejecting_command (str ''echo''))))
       (name (rejecting_command (str ''echo'')))
     = Some (tool_of_command (counting_command (str ''echo'')))"
    by (simp add: app_register_def app_new_agent_def example_names
        ProgrammaticCLIAgent_new_def buildToolsFromCommands_def CommandRecordRegistry_getAll_def
        CommandRecordRegistry_register_def ProgrammaticCLIAgent_getTool_def)
  show ?thesis
    using registry agent by simp
qed

section \<open>The output formatter: text mode\<close>

lemma startsWith_simps:
  "startsWith s [] = True"
  "startsWith [] (q # ps) = False"
  "startsWith (c # s) (q # ps) = (c = q \<and> startsWith s ps)"
  by (auto simp add: startsWith_def)

lemma startsWith_append: "startsWith (p @ s) p"
  by (simp add: startsWith_def)

lemma startsWith_before_sep:
  "sep \<notin> set p \<Longrightarrow> startsWith (x @ sep # y) p = startsWith x p"
proof (induction x arbitrary: p)
  case Nil
  then show ?case by (cases p) (auto simp add: startsWith_simps)
next
  case (Cons c x)
  then show ?case by (cases p) (auto simp add: startsWith_simps)
qed

lemma includes_across_sep:
  assumes "sep \<notin> set p" and "p \<noteq> []"
  shows "String_includes (x @ sep # y) p = (String_includes x p \<or> String_includes y p)"
proof (induction x)
  case Nil
  show ?case using assms by (cases p) (auto simp add: startsWith_simps)
next
  case (Cons c x)
  have "startsWith ((c # x) @ sep # y) p = startsWith (c # x) p"
    using assms(1) by (rule startsWith_before_sep)
  then show ?case using Cons by auto
qed

lemma endsWith_append: "endsWith (a @ p) p"
  by (simp add: endsWith_def)

lemma no_time_in_mark: "\<not> String_includes ([0x274C] @ str '' Error'') (str ''Execution time'')"
  by (simp add: str_def startsWith_simps)

lemma no_time_after_error_prefix:
  "String_includes ([0x274C] @ str '' Error'' @ str '': '' @ s) (str ''Execution time'')
     = String_includes s (str ''Execution time'')"
  by (simp add: str_def startsWith_simps)

lemma no_time_after_message_prefix:
  "String_includes (str ''Message: '' @ s) (str ''Execution time'')
     = String_includes s (str ''Execution time'')"
  by (simp add: str_def startsWith_simps)

lemma newline_not_in_pattern:
  "10 \<notin> set (str ''Execution time'')" "str ''Execution time'' \<noteq> []"
  by (simp_all add: str_def)

lemma format_failure_eq:
  "\<not> success result \<Longrightarrow>
     CLIOutputFormatter_format h result Text =
       [0x274C] @ str '' Error''
       @ (if truthy_string (error result) then str '': '' @ string_of (error result) else [])
       @ (if truthy_string (message result)
          then [10] @ str ''Message: '' @ string_of (message result) else [])"
  by (simp add: CLIOutputFormatter_format_def Let_def)

lemma format_success_eq:
  "success result \<Longrightarrow>
     \<exists>body. CLIOutputFormatter_format h result Text =
       body @ str ''Execution time: '' @ Number_toString (executionTimeMs result) @ str ''ms''"
proof -
  assume "success result"
  then have "CLIOutputFormatter_format h result Text =
      (([0x2705] @ str '' Success''
        @ (if truthy_string (message result) then str '': '' @ string_of (message result) else [])
        @ (if truthy_json (data result)
           then [10, 10] @ str ''Data:'' @ [10]
                @ (case data result of Some (JStr s) \<Rightarrow> s | Some d \<Rightarrow> JSON_stringify h d
                   | None \<Rightarrow> [])
           else []))
       @ [10, 10])
      @ str ''Execution time: '' @ Number_toString (executionTimeMs result) @ str ''ms''"
    by (simp add: CLIOutputFormatter_format_def Let_def)
  then show ?thesis by blast
qed

text \<open>
  C9, as amended. For a result with \<open>success = False\<close>, text mode returns the mark and
  \<^verbatim>\<open>Error\<close>, then a colon, a space and the error when the error is a non-empty string,
  then a line feed, \<^verbatim>\<open>Message: \<close> and the message when the message is a non-empty string,
  and nothing else: no execution-time suffix is appended, and the output contains
  \<^verbatim>\<open>Execution time\<close> only if the error or the message contains it. For a result with
  \<open>success = True\<close> the text ends with \<^verbatim>\<open>Execution time: \<close>, the number and \<^verbatim>\<open>ms\<close>.
\<close>

theorem format_text_failure_appends_no_execution_time:
  "(\<not> success result \<longrightarrow>
      CLIOutputFormatter_format h result Text =
        [0x274C] @ str '' Error''
        @ (if truthy_string (error result) then str '': '' @ string_of (error result) else [])
        @ (if truthy_string (message result)
           then [10] @ str ''Message: '' @ string_of (message result) else [])
      \<and> startsWith (CLIOutputFormatter_format h result Text) ([0x274C] @ str '' Error'')
      \<and> (\<not> String_includes (string_of (error result)) (str ''Execution time'')
           \<and> \<not> String_includes (string_of (message result)) (str ''Execution time'')
         \<longrightarrow> \<not> String_includes (CLIOutputFormatter_format h result Text)
                 (str ''Execution time'')))
   \<and> (success result \<longrightarrow>
        endsWith (CLIOutputFormatter_format h result Text)
          (str ''Execution time: '' @ Number_toString (executionTimeMs result) @ str ''ms''))"
proof (intro conjI impI)
  assume f: "\<not> success result"
  show eq: "CLIOutputFormatter_format h result Text =
        [0x274C] @ str '' Error''
        @ (if truthy_string (error result) then str '': '' @ string_of (error result) else [])
        @ (if truthy_string (message result)
           then [10] @ str ''Message: '' @ string_of (message result) else [])"
    using f by (rule format_failure_eq)
  show "startsWith (CLIOutputFormatter_format h result Text) ([0x274C] @ str '' Error'')"
    unfolding eq using startsWith_append[of "[0x274C] @ str '' Error''"] by simp
  assume clean: "\<not> String_includes (string_of (error result)) (str ''Execution time'')
           \<and> \<not> String_includes (string_of (message result)) (str ''Execution time'')"
  let ?p = "str ''Execution time''"
  let ?err = "string_of (error result)" and ?msg = "string_of (message result)"
  have m: "\<not> String_includes (str ''Message: '' @ ?msg) ?p"
    using clean no_time_after_message_prefix[of ?msg] by blast
  have e: "\<not> String_includes ([0x274C] @ str '' Error'' @ str '': '' @ ?err) ?p"
    using clean no_time_after_error_prefix[of ?err] by blast
  have both: "\<not> String_includes
      (([0x274C] @ str '' Error'' @ str '': '' @ ?err) @ 10 # (str ''Message: '' @ ?msg)) ?p"
    using m e includes_across_sep[OF newline_not_in_pattern] by blast
  have only_msg: "\<not> String_includes
      (([0x274C] @ str '' Error'') @ 10 # (str ''Message: '' @ ?msg)) ?p"
    using m no_time_in_mark includes_across_sep[OF newline_not_in_pattern] by blast
  show "\<not> String_includes (CLIOutputFormatter_format h result Text) ?p"
    unfolding eq using both only_msg e no_time_in_mark by simp
next
  assume "success result"
  then obtain body where "CLIOutputFormatter_format h result Text =
       body @ str ''Execution time: '' @ Number_toString (executionTimeMs result) @ str ''ms''"
    using format_success_eq by blast
  then show "endsWith (CLIOutputFormatter_format h result Text)
          (str ''Execution time: '' @ Number_toString (executionTimeMs result) @ str ''ms'')"
    using endsWith_append by simp
qed

lemma Number_toString_123: "Number_toString 123 = str ''123''"
  by (simp add: Number_toString_def digits.simps str_def)

theorem format_text_failure_appends_no_execution_time_witness:
  "\<not> success \<lparr>success = False, data = None, error = Some (str ''X''), message = None,
               timestamp = 0, executionTimeMs = 50\<rparr>
   \<and> CLIOutputFormatter_format host0
       \<lparr>success = False, data = None, error = Some (str ''X''), message = None,
        timestamp = 0, executionTimeMs = 50\<rparr> Text = [0x274C] @ str '' Error: X''
   \<and> \<not> String_includes
        (CLIOutputFormatter_format host0
           \<lparr>success = False, data = None, error = Some (str ''X''), message = None,
            timestamp = 0, executionTimeMs = 50\<rparr> Text)
        (str ''Execution time'')
   \<and> success \<lparr>success = True, data = Some (JNum 42), error = None,
              message = Some (str ''Operation successful''), timestamp = 0,
              executionTimeMs = 123\<rparr>
   \<and> endsWith
       (CLIOutputFormatter_format host0
          \<lparr>success = True, data = Some (JNum 42), error = None,
           message = Some (str ''Operation successful''), timestamp = 0,
           executionTimeMs = 123\<rparr> Text)
       (str ''Execution time: 123ms'')"
proof -
  let ?f = "\<lparr>success = False, data = None, error = Some (str ''X''), message = None,
             timestamp = 0, executionTimeMs = 50\<rparr>"
  let ?s = "\<lparr>success = True, data = Some (JNum 42), error = None,
             message = Some (str ''Operation successful''), timestamp = 0,
             executionTimeMs = 123\<rparr>"
  note F = format_text_failure_appends_no_execution_time [of ?f host0]
  note S = format_text_failure_appends_no_execution_time [of ?s host0]
  have clean: "\<not> String_includes (string_of (error ?f)) (str ''Execution time'')
      \<and> \<not> String_includes (string_of (message ?f)) (str ''Execution time'')"
    by (simp add: string_of_def str_def startsWith_simps)
  have nf: "\<not> success ?f" and ys: "success ?s"
    by simp_all
  have "CLIOutputFormatter_format host0 ?f Text =
      [0x274C] @ str '' Error''
      @ (if truthy_string (error ?f) then str '': '' @ string_of (error ?f) else [])
      @ (if truthy_string (message ?f)
         then [10] @ str ''Message: '' @ string_of (message ?f) else [])"
    using F nf by blast
  also have "\<dots> = [0x274C] @ str '' Error: X''"
    by (simp add: truthy_string_def string_of_def str_def)
  finally have f1: "CLIOutputFormatter_format host0 ?f Text = [0x274C] @ str '' Error: X''" .
  have f2: "\<not> String_includes (CLIOutputFormatter_format host0 ?f Text) (str ''Execution time'')"
    using F nf clean by blast
  have s1: "endsWith (CLIOutputFormatter_format host0 ?s Text)
      (str ''Execution time: '' @ Number_toString (executionTimeMs ?s) @ str ''ms'')"
    using S ys by blast
  have "str ''Execution time: '' @ Number_toString (executionTimeMs ?s) @ str ''ms''
      = str ''Execution time: 123ms''"
    by (simp add: Number_toString_123) (simp add: str_def)
  then have s2: "endsWith (CLIOutputFormatter_format host0 ?s Text) (str ''Execution time: 123ms'')"
    using s1 by simp
  show ?thesis
    using f1 f2 s2 by simp
qed

text \<open>
  The claim of C9 as it is stated (for every failed result the text contains no
  \<^verbatim>\<open>Execution time\<close>) fails for a result whose error text itself contains these words:
  the formatter copies the error into the output.
\<close>

theorem format_text_failure_echoes_error_counterexample:
  "\<not> success \<lparr>success = False, data = None, error = Some (str ''Execution time limit hit''),
               message = None, timestamp = 0, executionTimeMs = 50\<rparr>
   \<and> String_includes
       (CLIOutputFormatter_format host0
          \<lparr>success = False, data = None, error = Some (str ''Execution time limit hit''),
           message = None, timestamp = 0, executionTimeMs = 50\<rparr> Text)
       (str ''Execution time'')"
  by (simp add: CLIOutputFormatter_format_def truthy_string_def string_of_def str_def
      startsWith_simps)

end
